theory Spec2Isabelle
  imports Complex_Main
begin

section \<open>Order-status overlay: PlotManagementService (services/plotsManage.ts)\<close>

subsection \<open>Data\<close>

text \<open>
  \<^verbatim>\<open>order_status: 'pending' | 'approved' | 'rejected'\<close> is a closed union of string
  literals; the \<^verbatim>\<open>default\<close> branches of the switches over it are unreachable for
  values of this type.
\<close>

datatype order_status = Pending | Approved | Rejected

record OrderedPlot =
  plot_id :: string
  customer_name :: string
  order_status :: order_status
  order_date :: string

text \<open>
  \<^verbatim>\<open>Plot\<close> is imported from \<^verbatim>\<open>types/land\<close>. The service reads the fields \<^verbatim>\<open>id\<close>
  (here \<open>id'\<close>) and \<^verbatim>\<open>status\<close> only; everything else a plot carries (plot code,
  geometry, area, ...) is copied by the object spread and is the field \<open>rest\<close> here.
  The status is kept as the string it is at run time, so that values of both status
  vocabularies (\<^verbatim>\<open>"taken"\<close>, \<^verbatim>\<open>"sold"\<close>, ...) can be written.
\<close>

record 'a Plot =
  id' :: string
  status :: string
  rest :: 'a

text \<open>\<^verbatim>\<open>interface PlotWithOrderStatus extends Plot\<close>; an optional field is an option.\<close>

record 'a PlotWithOrderStatus = "'a Plot" +
  hasActiveOrder :: bool
  orderStatus :: "order_status option"
  orderDate :: "string option"
  customerName :: "string option"

subsection \<open>The read-through cache\<close>

text \<open>
  The response body is parsed JSON, typed \<^verbatim>\<open>any\<close>: what \<^verbatim>\<open>data.ordered_plots\<close> holds is
  decided by the server, and the service itself tests it with \<^verbatim>\<open>Array.isArray\<close>. A value
  is either an array of ordered-plot records or some other truthy value; of the latter the
  code observes only whether \<^verbatim>\<open>value.length > 0\<close> holds (it does for a non-empty string,
  it does not for a number or a plain object).
\<close>

datatype ordered_plots_value = PlotArray "OrderedPlot list" | NonArray bool

fun isArray :: "ordered_plots_value \<Rightarrow> bool" where
  "isArray (PlotArray ops) = True"
| "isArray (NonArray b) = False"

text \<open>\<^verbatim>\<open>value.length > 0\<close>\<close>

fun length_positive :: "ordered_plots_value \<Rightarrow> bool" where
  "length_positive (PlotArray ops) = (0 < length ops)"
| "length_positive (NonArray b) = b"

text \<open>The private fields of the service that change (\<^verbatim>\<open>apiUrl\<close> is constant).\<close>

record service =
  orderedPlotsCache :: ordered_plots_value
  cacheTimestamp :: int
  isLoading :: bool

definition cacheExpirationMs :: int where
  "cacheExpirationMs = 30000"


text \<open>\<^verbatim>\<open>isCacheValid()\<close>; \<open>now\<close> is what \<^verbatim>\<open>Date.now()\<close> returns, in milliseconds.\<close>

definition isCacheValid :: "int \<Rightarrow> service \<Rightarrow> bool" where
  "isCacheValid now s \<longleftrightarrow>
     now - cacheTimestamp s < cacheExpirationMs \<and> isArray (orderedPlotsCache s)"

definition invalidateCache :: "service \<Rightarrow> service" where
  "invalidateCache s = s\<lparr> orderedPlotsCache := PlotArray [], cacheTimestamp := 0 \<rparr>"

text \<open>
  What the network does is an input of the model. \<^verbatim>\<open>fetch\<close> rejects, or resolves to a
  response with its \<^verbatim>\<open>ok\<close> flag and \<^verbatim>\<open>status\<close>; \<^verbatim>\<open>response.json()\<close> rejects, or
  resolves to \<^verbatim>\<open>null\<close> (reading a property of it throws a TypeError), or to a value whose
  \<^verbatim>\<open>ordered_plots\<close> is missing or falsy (\<open>None\<close>) or truthy.
\<close>

datatype json_body = JsonRejects | JsonNull | JsonData "ordered_plots_value option"

datatype fetch_outcome = FetchRejects | Response bool nat json_body

datatype service_error =
  NetworkError | HttpError nat | BodyError | NullDataError | NotAnArrayError

text \<open>
  The statements of the \<^verbatim>\<open>try\<close> block of \<^verbatim>\<open>getOrderedPlots\<close> up to the cache update:
  every \<^verbatim>\<open>throw\<close> and every rejected \<^verbatim>\<open>await\<close> is an \<open>Inl\<close>.
  \<^verbatim>\<open>data.ordered_plots || []\<close> replaces a missing or falsy value by an empty array.
\<close>

fun fetchOrderedPlots :: "fetch_outcome \<Rightarrow> service_error + ordered_plots_value" where
  "fetchOrderedPlots FetchRejects = Inl NetworkError"
| "fetchOrderedPlots (Response ok st body) =
     (if \<not> ok then Inl (HttpError st)
      else case body of
             JsonRejects \<Rightarrow> Inl BodyError
           | JsonNull \<Rightarrow> Inl NullDataError
           | JsonData None \<Rightarrow> Inr (PlotArray [])
           | JsonData (Some orderedPlots) \<Rightarrow> Inr orderedPlots)"

text \<open>
  \<^verbatim>\<open>getOrderedPlots\<close> is an async function: it runs to its next \<^verbatim>\<open>await\<close>, and
  other calls run before it is resumed. The model has one function for each stretch of
  code between two suspensions, on the service state of that moment:
  \<^item> \<open>getOrderedPlots_enter\<close>, from the call to the first suspension or return;
  \<^item> \<open>getOrderedPlots_wake\<close>, from the expiry of the 100 ms timer of the waiting loop;
  \<^item> \<open>getOrderedPlots_settle\<close>, from the settling of the request to the return
    (the two awaits, of \<^verbatim>\<open>fetch\<close> and of \<^verbatim>\<open>response.json()\<close>, are one step: the code
    neither reads nor writes the service between them).
\<close>

datatype 'a progress = Returns 'a | Throws service_error | AwaitsTimer | AwaitsFetch

definition getOrderedPlots_enter ::
  "int \<Rightarrow> service \<Rightarrow> ordered_plots_value progress \<times> service" where
  "getOrderedPlots_enter now s =
     (if isCacheValid now s then (Returns (orderedPlotsCache s), s)
      else if isLoading s then (AwaitsTimer, s)
      else (AwaitsFetch, s\<lparr> isLoading := True \<rparr>))"

definition getOrderedPlots_wake ::
  "int \<Rightarrow> service \<Rightarrow> ordered_plots_value progress \<times> service" where
  "getOrderedPlots_wake now s =
     (if isLoading s then (AwaitsTimer, s)
      else if isCacheValid now s then (Returns (orderedPlotsCache s), s)
      else (AwaitsFetch, s\<lparr> isLoading := True \<rparr>))"

text \<open>
  The rest of the \<^verbatim>\<open>try\<close>, the \<^verbatim>\<open>catch\<close> and the \<^verbatim>\<open>finally\<close>; \<open>now\<close> is the
  \<^verbatim>\<open>Date.now()\<close> of the cache update.
\<close>

definition getOrderedPlots_settle ::
  "fetch_outcome \<Rightarrow> int \<Rightarrow> service \<Rightarrow> ordered_plots_value progress \<times> service" where
  "getOrderedPlots_settle outcome now s =
     (case fetchOrderedPlots outcome of
        Inr orderedPlots \<Rightarrow>
          (Returns orderedPlots,
           s\<lparr> orderedPlotsCache := orderedPlots, cacheTimestamp := now, isLoading := False \<rparr>)
      | Inl error \<Rightarrow>
          (Returns (if length_positive (orderedPlotsCache s) then orderedPlotsCache s
                    else PlotArray []),
           s\<lparr> isLoading := False \<rparr>))"

subsection \<open>Enrichment\<close>

text \<open>\<^verbatim>\<open>private getPlotStatusFromOrder(orderStatus)\<close>\<close>

fun getPlotStatusFromOrder :: "order_status \<Rightarrow> string" where
  "getPlotStatusFromOrder Pending = ''pending''"
| "getPlotStatusFromOrder Approved = ''taken''"
| "getPlotStatusFromOrder Rejected = ''available''"

text \<open>
  \<^verbatim>\<open>new Map(orderedPlots.map(op => [op.plot_id, op]))\<close>: the constructor sets the entries
  in order, so a later record with the same \<^verbatim>\<open>plot_id\<close> replaces an earlier one.
\<close>

definition orderedPlotsMap :: "OrderedPlot list \<Rightarrow> (string \<rightharpoonup> OrderedPlot)" where
  "orderedPlotsMap orderedPlots =
     foldl (\<lambda>m op. m(plot_id op \<mapsto> op)) Map.empty orderedPlots"

text \<open>
  The callback of \<^verbatim>\<open>plots.map\<close>. With an order: \<^verbatim>\<open>{...plot, status: ..., hasActiveOrder:
  true, orderStatus, orderDate, customerName}\<close>; without: \<^verbatim>\<open>{...plot, hasActiveOrder: false}\<close>.
\<close>

definition enrichPlot ::
  "(string \<rightharpoonup> OrderedPlot) \<Rightarrow> 'a Plot \<Rightarrow> 'a PlotWithOrderStatus" where
  "enrichPlot m plot =
     (case m (id' plot) of
        Some orderInfo \<Rightarrow>
          \<lparr> id' = id' plot,
            status = getPlotStatusFromOrder (order_status orderInfo),
            rest = rest plot,
            hasActiveOrder = True,
            orderStatus = Some (order_status orderInfo),
            orderDate = Some (order_date orderInfo),
            customerName = Some (customer_name orderInfo) \<rparr>
      | None \<Rightarrow>
          \<lparr> id' = id' plot, status = status plot, rest = rest plot,
            hasActiveOrder = False,
            orderStatus = None, orderDate = None, customerName = None \<rparr>)"

text \<open>
  \<^verbatim>\<open>enrichPlotsWithOrderStatus(plots)\<close>, from the settling of
  \<^verbatim>\<open>await this.getOrderedPlots()\<close>: the first argument is what that call returned or
  threw (\<open>Inl\<close>). \<open>enrich_try\<close> is the \<^verbatim>\<open>try\<close> block, \<open>enrich_fallback\<close> the \<^verbatim>\<open>catch\<close>.
\<close>

definition enrich_try ::
  "service_error + ordered_plots_value \<Rightarrow> 'a Plot list \<Rightarrow>
     service_error + 'a PlotWithOrderStatus list" where
  "enrich_try awaited plots =
     (case awaited of
        Inl e \<Rightarrow> Inl e
      | Inr (NonArray b) \<Rightarrow> Inl NotAnArrayError
      | Inr (PlotArray orderedPlots) \<Rightarrow>
          Inr (map (enrichPlot (orderedPlotsMap orderedPlots)) plots))"

definition enrich_fallback :: "'a Plot \<Rightarrow> 'a PlotWithOrderStatus" where
  "enrich_fallback plot =
     \<lparr> id' = id' plot, status = status plot, rest = rest plot,
       hasActiveOrder = False,
       orderStatus = None, orderDate = None, customerName = None \<rparr>"

definition enrichPlotsWithOrderStatus ::
  "service_error + ordered_plots_value \<Rightarrow> 'a Plot list \<Rightarrow>
     service_error + 'a PlotWithOrderStatus list" where
  "enrichPlotsWithOrderStatus awaited plots =
     (case enrich_try awaited plots of
        Inr enrichedPlots \<Rightarrow> Inr enrichedPlots
      | Inl error \<Rightarrow> Inr (map enrich_fallback plots))"

subsection \<open>Button visibility\<close>

text \<open>
  \<^verbatim>\<open>shouldShowOrderButton(plot)\<close>: \<^verbatim>\<open>plot.orderStatus === 'rejected'\<close> is false when the
  optional field is absent.
\<close>

definition shouldShowOrderButton :: "'a PlotWithOrderStatus \<Rightarrow> bool" where
  "shouldShowOrderButton plot =
     (if hasActiveOrder plot then orderStatus plot = Some Rejected
      else status plot = ''available'')"

subsection \<open>Concurrent calls\<close>

text \<open>
  The page runs on one thread: a stretch of code between two suspensions runs to its end
  before anything else does, and calls interleave only at their \<^verbatim>\<open>await\<close>s. A system
  is the shared service, the position of every call of \<^verbatim>\<open>getOrderedPlots\<close>, and the
  number of requests sent so far; \<^verbatim>\<open>fetch\<close> is called exactly when a call reaches
  \<open>AwaitsFetch\<close>.
\<close>

datatype call_state =
  NotStarted | Waiting | Fetching | Finished ordered_plots_value | Failed service_error

record system =
  shared :: service
  calls :: "nat \<Rightarrow> call_state"
  requests :: nat

fun call_state_of :: "ordered_plots_value progress \<Rightarrow> call_state" where
  "call_state_of (Returns v) = Finished v"
| "call_state_of (Throws e) = Failed e"
| "call_state_of AwaitsTimer = Waiting"
| "call_state_of AwaitsFetch = Fetching"

definition advance ::
  "nat \<Rightarrow> ordered_plots_value progress \<times> service \<Rightarrow> system \<Rightarrow> system" where
  "advance c r sys =
     \<lparr> shared = snd r,
       calls = (calls sys)(c := call_state_of (fst r)),
       requests = requests sys + (if fst r = AwaitsFetch then 1 else 0) \<rparr>"

text \<open>
  An event resumes one call at the time \<^verbatim>\<open>Date.now()\<close> shows: the call itself, the expiry
  of its timer, or the settling of its request. An event for a call that is not at that
  point is not possible (\<open>None\<close>).
\<close>

datatype event = Enter nat int | Wake nat int | Settle nat fetch_outcome int

fun step :: "event \<Rightarrow> system \<Rightarrow> system option" where
  "step (Enter c now) sys =
     (if calls sys c = NotStarted
      then Some (advance c (getOrderedPlots_enter now (shared sys)) sys) else None)"
| "step (Wake c now) sys =
     (if calls sys c = Waiting
      then Some (advance c (getOrderedPlots_wake now (shared sys)) sys) else None)"
| "step (Settle c outcome now) sys =
     (if calls sys c = Fetching
      then Some (advance c (getOrderedPlots_settle outcome now (shared sys)) sys) else None)"

fun call_of :: "event \<Rightarrow> nat" where
  "call_of (Enter c now) = c"
| "call_of (Wake c now) = c"
| "call_of (Settle c outcome now) = c"

fun run :: "event list \<Rightarrow> system \<Rightarrow> system option" where
  "run [] sys = Some sys"
| "run (e # es) sys = (case step e sys of None \<Rightarrow> None | Some sys' \<Rightarrow> run es sys')"


section \<open>Order submission in the map view (handleOrderSubmit)\<close>

text \<open>
  \<^verbatim>\<open>OrderData\<close> is imported from \<^verbatim>\<open>types/land\<close>; the handler reads two fields of it.
\<close>

record OrderData =
  first_name :: string
  last_name :: string

text \<open>
  What \<^verbatim>\<open>plotService.createOrder\<close> does is an input: it resolves, or rejects with an
  \<^verbatim>\<open>Error\<close> and its message or with some other value.
\<close>

datatype thrown = Error string | NonError

datatype order_outcome = OrderCreated | OrderFailed thrown

text \<open>
  The React state the handler reads and sets, and the singleton
  \<^verbatim>\<open>plotManagementService\<close> it calls.
\<close>

record 'a view_state =
  plots :: "'a PlotWithOrderStatus list"
  selectedPlot :: "'a PlotWithOrderStatus option"
  orderError :: "string option"
  isModalOpen :: bool
  plotManagementService :: service

text \<open>
  \<^verbatim>\<open>plots.map(p => p.id === selectedPlot.id ? {...p, status: "pending", ...} : p)\<close>;
  \<open>isoNow\<close> is \<^verbatim>\<open>new Date().toISOString()\<close>.
\<close>

definition optimisticPlots ::
  "'a PlotWithOrderStatus list \<Rightarrow> 'a PlotWithOrderStatus \<Rightarrow> OrderData \<Rightarrow> string \<Rightarrow>
     'a PlotWithOrderStatus list" where
  "optimisticPlots ps selected orderData isoNow =
     map (\<lambda>p. if id' p = id' selected
               then p\<lparr> status := ''pending'',
                      hasActiveOrder := True,
                      orderStatus := Some Pending,
                      orderDate := Some isoNow,
                      customerName := Some (first_name orderData @ '' '' @ last_name orderData) \<rparr>
               else p) ps"

text \<open>
  The handler up to \<^verbatim>\<open>await plotService.createOrder(...)\<close>. It suspends there holding
  \<^verbatim>\<open>originalPlots\<close>, or has returned because no plot is selected.
\<close>

datatype 'a submit_progress = Submitted | AwaitsCreateOrder "'a PlotWithOrderStatus list"

definition handleOrderSubmit_start ::
  "OrderData \<Rightarrow> string \<Rightarrow> 'a view_state \<Rightarrow> 'a submit_progress \<times> 'a view_state" where
  "handleOrderSubmit_start orderData isoNow st =
     (case selectedPlot st of
        None \<Rightarrow> (Submitted, st\<lparr> orderError := Some ''No plot selected.'' \<rparr>)
      | Some selected \<Rightarrow>
          (AwaitsCreateOrder (plots st),
           st\<lparr> orderError := None,
               plots := optimisticPlots (plots st) selected orderData isoNow \<rparr>))"

text \<open>
  The handler from the settling of \<^verbatim>\<open>createOrder\<close>, on the state of that moment: the rest
  of the \<^verbatim>\<open>try\<close> block when it resolved, the \<^verbatim>\<open>catch\<close> block when it rejected.
\<close>

fun errorMessage :: "thrown \<Rightarrow> string" where
  "errorMessage (Error message) = message"
| "errorMessage NonError = ''Unknown error occurred''"

fun handleOrderSubmit_settle ::
  "'a PlotWithOrderStatus list \<Rightarrow> order_outcome \<Rightarrow> 'a view_state \<Rightarrow> 'a view_state" where
  "handleOrderSubmit_settle originalPlots OrderCreated st =
     st\<lparr> plotManagementService := invalidateCache (plotManagementService st),
         selectedPlot := None,
         isModalOpen := False \<rparr>"
| "handleOrderSubmit_settle originalPlots (OrderFailed err) st =
     st\<lparr> plots := originalPlots,
         orderError := Some (''Failed to submit order: '' @ errorMessage err) \<rparr>"

text \<open>The whole handler, when nothing else touches the state while it is suspended.\<close>

definition handleOrderSubmit ::
  "OrderData \<Rightarrow> string \<Rightarrow> order_outcome \<Rightarrow> 'a view_state \<Rightarrow> 'a view_state" where
  "handleOrderSubmit orderData isoNow outcome st =
     (case handleOrderSubmit_start orderData isoNow st of
        (Submitted, st') \<Rightarrow> st'
      | (AwaitsCreateOrder originalPlots, st') \<Rightarrow>
          handleOrderSubmit_settle originalPlots outcome st')"

section \<open>Geometry in the map view\<close>

subsection \<open>Numbers and shapes\<close>

text \<open>
  A JavaScript number is an IEEE 754 double: a finite value, an infinity or NaN. A finite
  value is the real number it denotes; the two zeros, which are equal under \<^verbatim>\<open>===\<close>,
  are the one real 0.
\<close>

datatype jsnum = Fin real | PosInfinity | NegInfinity | NaN

text \<open>
  A position is an array of numbers, a ring an array of positions. An array read past its
  end gives \<^verbatim>\<open>undefined\<close>, which arithmetic turns into NaN.
\<close>

type_synonym position = "jsnum list"
type_synonym ring = "position list"

definition elem :: "position \<Rightarrow> nat \<Rightarrow> jsnum" where
  "elem coord i = (if i < length coord then coord ! i else NaN)"

text \<open>
  The argument of \<^verbatim>\<open>isValidGeometry\<close> is typed \<^verbatim>\<open>any\<close>. \<open>Polygon\<close> and
  \<open>MultiPolygon\<close> are the objects with that \<^verbatim>\<open>type\<close> whose \<^verbatim>\<open>coordinates\<close> are nested
  arrays of numbers of the right depth, so that every \<^verbatim>\<open>Array.isArray\<close> and
  \<^verbatim>\<open>typeof ... !== "number"\<close> test of the source passes; \<open>OtherGeometry\<close> is anything that
  the source rejects before it looks at a ring (\<^verbatim>\<open>null\<close>, no type, no coordinates,
  another type). A geometry comes from parsed JSON and is a tree: no array occurs in it
  twice, so a ring changed in place changes that ring only, and the geometry afterwards is
  a value computed from the geometry before.
\<close>

datatype geometry = Polygon "ring list" | MultiPolygon "ring list list" | OtherGeometry

subsection \<open>Double arithmetic\<close>

text \<open>
  The finite doubles are the numbers \<open>m * 2 ^ e\<close> with \<open>\<bar>m\<bar> < 2 ^ 53\<close> and
  \<open>-1074 \<le> e \<le> 971\<close>. An arithmetic operation returns the double nearest to the exact
  result, the one with the even significand when two are equally near, and an infinity
  when that value is beyond the largest double.

  \<open>bits n\<close> is the number of binary digits of \<open>n\<close>, and \<open>binade x\<close> the exponent of
  the power of two at or below \<open>\<bar>x\<bar>\<close>, for \<open>x\<close> other than 0.
\<close>

function bits :: "int \<Rightarrow> nat" where
  "bits n = (if n \<le> 0 then 0 else Suc (bits (n div 2)))"
  by pat_completeness auto
termination
  by (relation "measure nat") auto

declare bits.simps [simp del]

definition binade :: "real \<Rightarrow> int" where
  "binade x =
     (let a = \<bar>x\<bar>
      in if 1 \<le> a then int (bits \<lfloor>a\<rfloor>) - 1
         else (let k = int (bits \<lfloor>1 / a\<rfloor>) - 1
               in if 1 / a = 2 ^ nat k then - k else - k - 1))"

text \<open>The nearest integer, the even one of two equally near.\<close>

definition round_half_even :: "real \<Rightarrow> int" where
  "round_half_even q =
     (let f = \<lfloor>q\<rfloor>; r = q - of_int f
      in if r < 1 / 2 then f
         else if 1 / 2 < r then f + 1
         else if even f then f else f + 1)"

text \<open>\<open>scale x e\<close> is \<open>x * 2 ^ e\<close> for an integer \<open>e\<close> of either sign.\<close>

definition scale :: "real \<Rightarrow> int \<Rightarrow> real" where
  "scale x e = (if 0 \<le> e then x * 2 ^ nat e else x / 2 ^ nat (- e))"

text \<open>
  Rounding to 53 significant bits, or to a multiple of \<open>2 ^ -1074\<close> where the doubles
  are subnormal. A numeric literal denotes the rounding of its decimal value.
\<close>

definition round_double :: "real \<Rightarrow> real" where
  "round_double x =
     (if x = 0 then 0
      else (let e = max (binade x - 52) (- 1074)
            in scale (of_int (round_half_even (scale x (- e)))) e))"

text \<open>The double an operation returns when its exact result is \<open>x\<close>.\<close>

definition fl :: "real \<Rightarrow> jsnum" where
  "fl x =
     (let r = round_double x
      in if 2 ^ 1024 \<le> r then PosInfinity
         else if r \<le> - (2 ^ 1024) then NegInfinity
         else Fin r)"

text \<open>
  The operators \<^verbatim>\<open>+\<close>, \<^verbatim>\<open>-\<close>, \<^verbatim>\<open>*\<close>, \<^verbatim>\<open>/\<close> and \<^verbatim>\<open>Math.abs\<close>. A zero divisor counts
  as the positive zero; the functions below divide by \<^verbatim>\<open>6 * area\<close>, reached with an
  \<^verbatim>\<open>area\<close> that is not zero, and by \<^verbatim>\<open>ring.length - 1\<close>, which is at least 3.
\<close>

fun js_add :: "jsnum \<Rightarrow> jsnum \<Rightarrow> jsnum" where
  "js_add (Fin a) (Fin b) = fl (a + b)"
| "js_add NaN b = NaN"
| "js_add a NaN = NaN"
| "js_add PosInfinity NegInfinity = NaN"
| "js_add NegInfinity PosInfinity = NaN"
| "js_add PosInfinity b = PosInfinity"
| "js_add a PosInfinity = PosInfinity"
| "js_add NegInfinity b = NegInfinity"
| "js_add a NegInfinity = NegInfinity"

fun js_sub :: "jsnum \<Rightarrow> jsnum \<Rightarrow> jsnum" where
  "js_sub (Fin a) (Fin b) = fl (a - b)"
| "js_sub NaN b = NaN"
| "js_sub a NaN = NaN"
| "js_sub PosInfinity PosInfinity = NaN"
| "js_sub NegInfinity NegInfinity = NaN"
| "js_sub PosInfinity b = PosInfinity"
| "js_sub a PosInfinity = NegInfinity"
| "js_sub NegInfinity b = NegInfinity"
| "js_sub a NegInfinity = PosInfinity"

fun js_sign :: "jsnum \<Rightarrow> int" where
  "js_sign (Fin a) = (if 0 < a then 1 else if a < 0 then - 1 else 0)"
| "js_sign PosInfinity = 1"
| "js_sign NegInfinity = - 1"
| "js_sign NaN = 0"

fun js_mul :: "jsnum \<Rightarrow> jsnum \<Rightarrow> jsnum" where
  "js_mul (Fin a) (Fin b) = fl (a * b)"
| "js_mul NaN b = NaN"
| "js_mul a NaN = NaN"
| "js_mul a b =
     (if js_sign a * js_sign b = 0 then NaN
      else if 0 < js_sign a * js_sign b then PosInfinity else NegInfinity)"

fun js_div :: "jsnum \<Rightarrow> jsnum \<Rightarrow> jsnum" where
  "js_div (Fin a) (Fin b) =
     (if b = 0
      then (if a = 0 then NaN else if 0 < a then PosInfinity else NegInfinity)
      else fl (a / b))"
| "js_div NaN b = NaN"
| "js_div a NaN = NaN"
| "js_div (Fin a) b = Fin 0"
| "js_div a (Fin b) =
     (if 0 < js_sign a * (if b < 0 then - 1 else 1) then PosInfinity else NegInfinity)"
| "js_div a b = NaN"

fun js_abs :: "jsnum \<Rightarrow> jsnum" where
  "js_abs (Fin a) = Fin \<bar>a\<bar>"
| "js_abs NaN = NaN"
| "js_abs a = PosInfinity"

text \<open>The literal \<^verbatim>\<open>1e-10\<close>.\<close>

definition number_1e_10 :: real where
  "number_1e_10 = round_double (1 / 10 ^ 10)"

subsection \<open>isValidGeometry\<close>

text \<open>\<^verbatim>\<open>isFinite\<close>, and the comparisons of a number with a finite bound (false on NaN).\<close>

fun isFinite :: "jsnum \<Rightarrow> bool" where
  "isFinite (Fin r) = True"
| "isFinite v = False"

fun js_less :: "jsnum \<Rightarrow> real \<Rightarrow> bool" where
  "js_less (Fin r) b = (r < b)"
| "js_less NegInfinity b = True"
| "js_less v b = False"

fun js_greater :: "jsnum \<Rightarrow> real \<Rightarrow> bool" where
  "js_greater (Fin r) b = (r > b)"
| "js_greater PosInfinity b = True"
| "js_greater v b = False"

text \<open>
  \<^verbatim>\<open>isValidCoordinate(coord)\<close>: at least two elements, the first two finite, and within
  the bounds widened by 0.1. (\<^verbatim>\<open>isNaN\<close> is tested after \<^verbatim>\<open>isFinite\<close>, which NaN
  already fails.)
\<close>

fun isValidCoordinate :: "position \<Rightarrow> bool" where
  "isValidCoordinate (lng # lat # others) =
     (if \<not> isFinite lng \<or> \<not> isFinite lat then False
      else if js_less lng (- 180.1) \<or> js_greater lng 180.1 then False
      else if js_less lat (- 90.1) \<or> js_greater lat 90.1 then False
      else True)"
| "isValidCoordinate coord = False"

text \<open>\<^verbatim>\<open>Math.max(lo, Math.min(hi, v))\<close>\<close>

fun clamp :: "real \<Rightarrow> real \<Rightarrow> jsnum \<Rightarrow> jsnum" where
  "clamp lo hi (Fin r) = Fin (max lo (min hi r))"
| "clamp lo hi PosInfinity = Fin hi"
| "clamp lo hi NegInfinity = Fin lo"
| "clamp lo hi NaN = NaN"

text \<open>\<^verbatim>\<open>normalizeCoordinate(coord)\<close> builds a new two-element array.\<close>

definition normalizeCoordinate :: "position \<Rightarrow> position" where
  "normalizeCoordinate coord =
     [clamp (- 180) 180 (elem coord 0), clamp (- 90) 90 (elem coord 1)]"

text \<open>
  The \<^verbatim>\<open>for\<close> loop of the ring callback: it overwrites \<^verbatim>\<open>ring[i]\<close> with the normalised
  position while the positions are valid and returns false at the first that is not,
  leaving the ring normalised up to there.
\<close>

fun normalizeLoop :: "ring \<Rightarrow> bool \<times> ring" where
  "normalizeLoop [] = (True, [])"
| "normalizeLoop (coord # coords) =
     (if isValidCoordinate coord
      then (case normalizeLoop coords of
              (ok, coords') \<Rightarrow> (ok, normalizeCoordinate coord # coords'))
      else (False, coord # coords))"

text \<open>
  \<^verbatim>\<open>Math.abs(a - b) > 1e-10\<close>: the difference is the rounded one, the bound is the
  double that the literal denotes, and a difference that is NaN compares false.
\<close>

definition differs :: "jsnum \<Rightarrow> jsnum \<Rightarrow> bool" where
  "differs a b = js_greater (js_abs (js_sub a b)) number_1e_10"

text \<open>
  The closing step: \<^verbatim>\<open>ring[ring.length - 1] = [first[0], first[1]]\<close> when the first and
  the last position differ. It runs on rings of at least four positions only.
\<close>

definition closeRing :: "ring \<Rightarrow> ring" where
  "closeRing ring =
     (let first = ring ! 0; final = ring ! (length ring - 1)
      in if differs (elem first 0) (elem final 0) \<or> differs (elem first 1) (elem final 1)
         then ring[length ring - 1 := [elem first 0, elem first 1]]
         else ring)"

text \<open>
  The ring callback, the same code for a Polygon and for a MultiPolygon. The ring is
  changed in place: the result carries what the ring holds afterwards.
\<close>

definition validateRing :: "ring \<Rightarrow> bool \<times> ring" where
  "validateRing ring =
     (if length ring < 4 then (False, ring)
      else case normalizeLoop ring of
             (False, ring') \<Rightarrow> (False, ring')
           | (True, ring') \<Rightarrow> (True, closeRing ring'))"

text \<open>\<^verbatim>\<open>rings.every(callback)\<close> stops at the first ring for which the callback is false.\<close>

fun everyRing :: "ring list \<Rightarrow> bool \<times> ring list" where
  "everyRing [] = (True, [])"
| "everyRing (ring # rings) =
     (case validateRing ring of
        (False, ring') \<Rightarrow> (False, ring' # rings)
      | (True, ring') \<Rightarrow>
          (case everyRing rings of (ok, rings') \<Rightarrow> (ok, ring' # rings')))"

text \<open>The polygon callback of a MultiPolygon rejects a polygon without rings.\<close>

fun everyPolygon :: "ring list list \<Rightarrow> bool \<times> ring list list" where
  "everyPolygon [] = (True, [])"
| "everyPolygon (polygon # polygons) =
     (if length polygon = 0 then (False, polygon # polygons)
      else case everyRing polygon of
             (False, polygon') \<Rightarrow> (False, polygon' # polygons)
           | (True, polygon') \<Rightarrow>
               (case everyPolygon polygons of (ok, polygons') \<Rightarrow> (ok, polygon' # polygons')))"

text \<open>
  \<^verbatim>\<open>isValidGeometry(geometry)\<close>: the boolean it returns and the geometry object as it is
  afterwards.
\<close>

fun isValidGeometry :: "geometry \<Rightarrow> bool \<times> geometry" where
  "isValidGeometry (Polygon coordinates) =
     (if length coordinates = 0 then (False, Polygon coordinates)
      else case everyRing coordinates of (ok, coordinates') \<Rightarrow> (ok, Polygon coordinates'))"
| "isValidGeometry (MultiPolygon coordinates) =
     (if length coordinates = 0 then (False, MultiPolygon coordinates)
      else case everyPolygon coordinates of
             (ok, coordinates') \<Rightarrow> (ok, MultiPolygon coordinates'))"
| "isValidGeometry OtherGeometry = (False, OtherGeometry)"

text \<open>
  The validity rule in the words of the specification: every ring has at least four
  positions and every position passes the coordinate check.
\<close>

definition ring_passes :: "ring \<Rightarrow> bool" where
  "ring_passes ring \<longleftrightarrow> 4 \<le> length ring \<and> list_all isValidCoordinate ring"

fun every_ring_passes :: "geometry \<Rightarrow> bool" where
  "every_ring_passes (Polygon coordinates) = list_all ring_passes coordinates"
| "every_ring_passes (MultiPolygon coordinates) = list_all (list_all ring_passes) coordinates"
| "every_ring_passes OtherGeometry = False"

text \<open>
  What a valid ring is to hold afterwards: every position clamped, and the last one
  replaced by a copy of the first when the two, clamped, differ by more than \<open>1e-10\<close>
  in either axis, the difference and the bound being those of double arithmetic.
\<close>

definition clamped_position :: "position \<Rightarrow> position" where
  "clamped_position coord = [clamp (- 180) 180 (coord ! 0), clamp (- 90) 90 (coord ! 1)]"

definition expected_ring :: "ring \<Rightarrow> ring" where
  "expected_ring ring =
     (let first = clamped_position (hd ring); final = clamped_position (last ring)
      in map clamped_position (butlast ring) @
         [if differs (first ! 0) (final ! 0) \<or> differs (first ! 1) (final ! 1)
          then first else final])"

subsection \<open>getPolygonCentroid\<close>

text \<open>
  \<^verbatim>\<open>getPolygonCentroid(coordinates: number[][][])\<close> is called on the geometries that
  passed \<^verbatim>\<open>isValidGeometry\<close>, whose positions are pairs of finite numbers: a point is a
  pair of reals. The first ring is the one used. Every operation on the accumulators is an
  operation on doubles.
\<close>

type_synonym point = "real \<times> real"

text \<open>One pass of the \<^verbatim>\<open>for\<close> loop on the accumulators \<^verbatim>\<open>area\<close>, \<^verbatim>\<open>x\<close>, \<^verbatim>\<open>y\<close>.\<close>

definition centroidStep ::
  "point list \<Rightarrow> nat \<Rightarrow> jsnum \<times> jsnum \<times> jsnum \<Rightarrow> jsnum \<times> jsnum \<times> jsnum" where
  "centroidStep ring i acc =
     (case acc of (area, x, y) \<Rightarrow>
        (case ring ! i of (x0, y0) \<Rightarrow>
           (case ring ! (i + 1) of (x1, y1) \<Rightarrow>
              (let a = js_sub (js_mul (Fin x0) (Fin y1)) (js_mul (Fin x1) (Fin y0))
               in (js_add area a,
                   js_add x (js_mul (js_add (Fin x0) (Fin x1)) a),
                   js_add y (js_mul (js_add (Fin y0) (Fin y1)) a))))))"

definition getPolygonCentroid :: "point list list \<Rightarrow> jsnum \<times> jsnum" where
  "getPolygonCentroid coordinates =
     (case coordinates of
        [] \<Rightarrow> (Fin 0, Fin 0)
      | ring # holes \<Rightarrow>
          if length ring < 4 then (Fin 0, Fin 0)
          else case fold (centroidStep ring) [0 ..< length ring - 1] (Fin 0, Fin 0, Fin 0) of
            (area, x, y) \<Rightarrow>
              if js_less (js_abs area) number_1e_10
              then (js_div (foldl (\<lambda>sum coord. js_add sum (Fin (fst coord))) (Fin 0) ring)
                      (Fin (real (length ring - 1))),
                    js_div (foldl (\<lambda>sum coord. js_add sum (Fin (snd coord))) (Fin 0) ring)
                      (Fin (real (length ring - 1))))
              else (let area' = js_mul area (Fin 0.5);
                        centroidX = js_div x (js_mul (Fin 6) area');
                        centroidY = js_div y (js_mul (Fin 6) area')
                    in (clamp (- 180) 180 centroidX, clamp (- 90) 90 centroidY)))"

text \<open>
  The signed-area centroid of the polygon with vertices \<open>vs\<close> (each vertex once, the edge
  from the last back to the first included), by the shoelace formulas.
\<close>

definition next_vertex :: "point list \<Rightarrow> nat \<Rightarrow> point" where
  "next_vertex vs i = vs ! ((i + 1) mod length vs)"

definition cross :: "point \<Rightarrow> point \<Rightarrow> real" where
  "cross p q = fst p * snd q - fst q * snd p"

definition signed_area :: "point list \<Rightarrow> real" where
  "signed_area vs = (\<Sum>i<length vs. cross (vs ! i) (next_vertex vs i)) / 2"





text \<open>The arithmetic mean of a list of points.\<close>

definition mean_point :: "point list \<Rightarrow> point" where
  "mean_point ps = (sum_list (map fst ps) / real (length ps), sum_list (map snd ps) / real (length ps))"

section \<open>Properties\<close>

subsection \<open>Enrichment and button visibility\<close>

text \<open>The map built from the array finds the last record with the key.\<close>

lemma orderedPlotsMap_foldl:
  "foldl (\<lambda>m op. m(plot_id op \<mapsto> op)) m0 ops k =
     (case find (\<lambda>op. plot_id op = k) (rev ops) of Some op \<Rightarrow> Some op | None \<Rightarrow> m0 k)"
  by (induction ops rule: rev_induct) (auto split: option.splits)

lemma orderedPlotsMap_find:
  "orderedPlotsMap ops k = find (\<lambda>op. plot_id op = k) (rev ops)"
  by (simp add: orderedPlotsMap_def orderedPlotsMap_foldl split: option.splits)

lemma find_rev_None: "find P (rev xs) = None \<longleftrightarrow> \<not> (\<exists>x\<in>set xs. P x)"
  by (auto simp: find_None_iff)

lemma find_Some_holds: "find P xs = Some x \<Longrightarrow> x \<in> set xs \<and> P x"
  by (induction xs) (auto split: if_splits)

text \<open>
  Claim C2. \<open>shouldShowOrderButton\<close> is false for a plot with an active order unless the
  order status is \<^verbatim>\<open>"rejected"\<close>, when it is true; for a plot without an active order it
  is true exactly when the plot status is \<^verbatim>\<open>"available"\<close>, so it is false for
  \<^verbatim>\<open>"sold"\<close>.
\<close>

theorem shouldShowOrderButton_cases:
  "(hasActiveOrder plot \<and> orderStatus plot \<noteq> Some Rejected \<longrightarrow> \<not> shouldShowOrderButton plot) \<and>
   (hasActiveOrder plot \<and> orderStatus plot = Some Rejected \<longrightarrow> shouldShowOrderButton plot) \<and>
   (\<not> hasActiveOrder plot \<longrightarrow> (shouldShowOrderButton plot \<longleftrightarrow> status plot = ''available'')) \<and>
   (\<not> hasActiveOrder plot \<and> status plot = ''sold'' \<longrightarrow> \<not> shouldShowOrderButton plot)"
  by (simp add: shouldShowOrderButton_def)

text \<open>
  Claim C1. When \<^verbatim>\<open>getOrderedPlots\<close> has returned the array \<open>ops\<close>, the enrichment
  returns one record for each input plot, in order, with the plot's id and other fields.
  A plot has \<open>hasActiveOrder\<close> exactly when some record of \<open>ops\<close> has its id as
  \<open>plot_id\<close>; it then carries the order status, order date and customer name of such a
  record (the last one in \<open>ops\<close>, when several match), and its status is the image of
  that order status under pending \<open>\<mapsto>\<close> \<^verbatim>\<open>"pending"\<close>, approved \<open>\<mapsto>\<close> \<^verbatim>\<open>"taken"\<close>,
  rejected \<open>\<mapsto>\<close> \<^verbatim>\<open>"available"\<close>. A plot without a matching record has
  \<open>hasActiveOrder = False\<close> and keeps its status.
\<close>

theorem enrich_matches_orders:
  fixes plots :: "'a Plot list"
  shows "\<exists>out. enrichPlotsWithOrderStatus (Inr (PlotArray ops)) plots = Inr out \<and>
     length out = length plots \<and>
     (\<forall>i<length plots.
        id' (out ! i) = id' (plots ! i) \<and> rest (out ! i) = rest (plots ! i) \<and>
        (hasActiveOrder (out ! i) \<longleftrightarrow> (\<exists>op\<in>set ops. plot_id op = id' (plots ! i))) \<and>
        (case find (\<lambda>op. plot_id op = id' (plots ! i)) (rev ops) of
           Some op \<Rightarrow>
             op \<in> set ops \<and> plot_id op = id' (plots ! i) \<and>
             hasActiveOrder (out ! i) \<and>
             orderStatus (out ! i) = Some (order_status op) \<and>
             orderDate (out ! i) = Some (order_date op) \<and>
             customerName (out ! i) = Some (customer_name op) \<and>
             status (out ! i) =
               (case order_status op of
                  Pending \<Rightarrow> ''pending'' | Approved \<Rightarrow> ''taken'' | Rejected \<Rightarrow> ''available'')
         | None \<Rightarrow>
             \<not> hasActiveOrder (out ! i) \<and> status (out ! i) = status (plots ! i)))"
proof -
  let ?m = "orderedPlotsMap ops"
  let ?out = "map (enrichPlot ?m) plots"
  let ?Q = "\<lambda>(p :: 'a Plot) (q :: 'a PlotWithOrderStatus).
        id' q = id' p \<and> rest q = rest p \<and>
        (hasActiveOrder q \<longleftrightarrow> (\<exists>op\<in>set ops. plot_id op = id' p)) \<and>
        (case find (\<lambda>op. plot_id op = id' p) (rev ops) of
           Some op \<Rightarrow>
             op \<in> set ops \<and> plot_id op = id' p \<and>
             hasActiveOrder q \<and>
             orderStatus q = Some (order_status op) \<and>
             orderDate q = Some (order_date op) \<and>
             customerName q = Some (customer_name op) \<and>
             status q =
               (case order_status op of
                  Pending \<Rightarrow> ''pending'' | Approved \<Rightarrow> ''taken'' | Rejected \<Rightarrow> ''available'')
         | None \<Rightarrow> \<not> hasActiveOrder q \<and> status q = status p)"
  have run: "enrichPlotsWithOrderStatus (Inr (PlotArray ops)) plots = Inr ?out"
    by (simp add: enrichPlotsWithOrderStatus_def enrich_try_def)
  have each: "?Q p (enrichPlot ?m p)" for p :: "'a Plot"
  proof (cases "find (\<lambda>op. plot_id op = id' p) (rev ops)")
    case None
    then show ?thesis
      using find_rev_None [of "\<lambda>op. plot_id op = id' p" ops]
      by (simp add: enrichPlot_def orderedPlotsMap_find)
  next
    case (Some op)
    then have mem: "op \<in> set (rev ops)" and key: "plot_id op = id' p"
      using find_Some_holds [of "\<lambda>op. plot_id op = id' p" "rev ops" op] by simp_all
    from mem have "op \<in> set ops" by simp
    with Some key show ?thesis
      by (cases "order_status op") (simp_all add: enrichPlot_def orderedPlotsMap_find, blast+)
  qed
  have all: "\<forall>i<length plots. ?Q (plots ! i) (?out ! i)"
  proof (intro allI impI)
    fix i assume "i < length plots"
    then have nth: "?out ! i = enrichPlot ?m (plots ! i)" by simp
    show "?Q (plots ! i) (?out ! i)"
      unfolding nth by (rule each)
  qed
  have len: "length ?out = length plots" by simp
  from run len all show ?thesis by blast
qed


text \<open>The four cases of C2 at concrete plots.\<close>

theorem shouldShowOrderButton_witness:
  "\<not> shouldShowOrderButton
       \<lparr> id' = ''p1'', status = ''pending'', rest = (), hasActiveOrder = True,
         orderStatus = Some Pending, orderDate = None, customerName = None \<rparr> \<and>
   shouldShowOrderButton
       \<lparr> id' = ''p2'', status = ''available'', rest = (), hasActiveOrder = True,
         orderStatus = Some Rejected, orderDate = None, customerName = None \<rparr> \<and>
   shouldShowOrderButton
       \<lparr> id' = ''p3'', status = ''available'', rest = (), hasActiveOrder = False,
         orderStatus = None, orderDate = None, customerName = None \<rparr> \<and>
   \<not> shouldShowOrderButton
       \<lparr> id' = ''p4'', status = ''sold'', rest = (), hasActiveOrder = False,
         orderStatus = None, orderDate = None, customerName = None \<rparr>"
  using
    shouldShowOrderButton_cases [of "\<lparr> id' = ''p1'', status = ''pending'', rest = (),
      hasActiveOrder = True, orderStatus = Some Pending, orderDate = None,
      customerName = None \<rparr>"]
    shouldShowOrderButton_cases [of "\<lparr> id' = ''p2'', status = ''available'', rest = (),
      hasActiveOrder = True, orderStatus = Some Rejected, orderDate = None,
      customerName = None \<rparr>"]
    shouldShowOrderButton_cases [of "\<lparr> id' = ''p3'', status = ''available'', rest = (),
      hasActiveOrder = False, orderStatus = None, orderDate = None, customerName = None \<rparr>"]
    shouldShowOrderButton_cases [of "\<lparr> id' = ''p4'', status = ''sold'', rest = (),
      hasActiveOrder = False, orderStatus = None, orderDate = None, customerName = None \<rparr>"]
  by simp

text \<open>
  C1 at two orders for plot \<^verbatim>\<open>a\<close> and none for plot \<^verbatim>\<open>b\<close>: the later order wins.
\<close>

theorem enrich_matches_orders_witness:
  "\<exists>out. enrichPlotsWithOrderStatus
       (Inr (PlotArray
         [\<lparr> plot_id = ''a'', customer_name = ''Asha'', order_status = Pending,
             order_date = ''2025-01-01'' \<rparr>,
          \<lparr> plot_id = ''a'', customer_name = ''Juma'', order_status = Approved,
             order_date = ''2025-02-02'' \<rparr>]))
       [\<lparr> id' = ''a'', status = ''available'', rest = () \<rparr>,
        \<lparr> id' = ''b'', status = ''sold'', rest = () \<rparr>] = Inr out \<and>
     length out = 2 \<and>
     hasActiveOrder (out ! 0) \<and> orderStatus (out ! 0) = Some Approved \<and>
     customerName (out ! 0) = Some ''Juma'' \<and> orderDate (out ! 0) = Some ''2025-02-02'' \<and>
     status (out ! 0) = ''taken'' \<and>
     \<not> hasActiveOrder (out ! 1) \<and> status (out ! 1) = ''sold''"
proof -
  let ?ops = "[\<lparr> plot_id = ''a'', customer_name = ''Asha'', order_status = Pending,
             order_date = ''2025-01-01'' \<rparr>,
          \<lparr> plot_id = ''a'', customer_name = ''Juma'', order_status = Approved,
             order_date = ''2025-02-02'' \<rparr>]"
  let ?plots = "[\<lparr> id' = ''a'', status = ''available'', rest = () \<rparr>,
        \<lparr> id' = ''b'', status = ''sold'', rest = () \<rparr>]"
  obtain out where run: "enrichPlotsWithOrderStatus (Inr (PlotArray ?ops)) ?plots = Inr out"
    and len: "length out = length ?plots"
    and all: "\<forall>i<length ?plots.
        id' (out ! i) = id' (?plots ! i) \<and> rest (out ! i) = rest (?plots ! i) \<and>
        (hasActiveOrder (out ! i) \<longleftrightarrow> (\<exists>op\<in>set ?ops. plot_id op = id' (?plots ! i))) \<and>
        (case find (\<lambda>op. plot_id op = id' (?plots ! i)) (rev ?ops) of
           Some op \<Rightarrow>
             op \<in> set ?ops \<and> plot_id op = id' (?plots ! i) \<and>
             hasActiveOrder (out ! i) \<and>
             orderStatus (out ! i) = Some (order_status op) \<and>
             orderDate (out ! i) = Some (order_date op) \<and>
             customerName (out ! i) = Some (customer_name op) \<and>
             status (out ! i) =
               (case order_status op of
                  Pending \<Rightarrow> ''pending'' | Approved \<Rightarrow> ''taken'' | Rejected \<Rightarrow> ''available'')
         | None \<Rightarrow>
             \<not> hasActiveOrder (out ! i) \<and> status (out ! i) = status (?plots ! i))"
    using enrich_matches_orders [of ?ops ?plots] by blast
  from all [rule_format, of 0] have "hasActiveOrder (out ! 0) \<and> orderStatus (out ! 0) = Some Approved \<and>
     customerName (out ! 0) = Some ''Juma'' \<and> orderDate (out ! 0) = Some ''2025-02-02'' \<and>
     status (out ! 0) = ''taken''"
    by simp
  moreover from all [rule_format, of 1] have "\<not> hasActiveOrder (out ! 1) \<and> status (out ! 1) = ''sold''"
    by simp
  ultimately show ?thesis using run len by simp
qed

subsection \<open>Failures degrade\<close>

text \<open>
  Claim C4. No stretch of \<^verbatim>\<open>getOrderedPlots\<close> throws, and the last one returns for every
  outcome of the request. When \<^verbatim>\<open>fetch\<close> rejects, or the response is not ok (or anything
  else makes the \<^verbatim>\<open>try\<close> block throw), the call returns what the cache holds at that
  moment, fresh or stale, if its length is positive and an empty array otherwise; the
  cache and its timestamp stay as they are and the loading flag is cleared.
\<close>

theorem getOrderedPlots_degrades:
  "(\<forall>e. fst (getOrderedPlots_enter now s) \<noteq> Throws e) \<and>
   (\<forall>e. fst (getOrderedPlots_wake now s) \<noteq> Throws e) \<and>
   (\<exists>r. fst (getOrderedPlots_settle outcome now s) = Returns r) \<and>
   ((outcome = FetchRejects \<or> (\<exists>st body. outcome = Response False st body) \<or>
     (\<exists>e. fetchOrderedPlots outcome = Inl e)) \<longrightarrow>
    getOrderedPlots_settle outcome now s =
      (Returns (if length_positive (orderedPlotsCache s) then orderedPlotsCache s
                else PlotArray []),
       s\<lparr> isLoading := False \<rparr>))"
proof (intro conjI impI)
  show "\<forall>e. fst (getOrderedPlots_enter now s) \<noteq> Throws e"
    by (simp add: getOrderedPlots_enter_def)
  show "\<forall>e. fst (getOrderedPlots_wake now s) \<noteq> Throws e"
    by (simp add: getOrderedPlots_wake_def)
  show "\<exists>r. fst (getOrderedPlots_settle outcome now s) = Returns r"
    by (cases "fetchOrderedPlots outcome") (simp_all add: getOrderedPlots_settle_def)
next
  assume "outcome = FetchRejects \<or> (\<exists>st body. outcome = Response False st body) \<or>
     (\<exists>e. fetchOrderedPlots outcome = Inl e)"
  then obtain e where "fetchOrderedPlots outcome = Inl e"
    by auto
  then show "getOrderedPlots_settle outcome now s =
      (Returns (if length_positive (orderedPlotsCache s) then orderedPlotsCache s
                else PlotArray []),
       s\<lparr> isLoading := False \<rparr>)"
    by (simp add: getOrderedPlots_settle_def)
qed


text \<open>
  C4 at a rejected request over a stale cache of one record, and at a 503 response over the
  empty cache of a new service.
\<close>

theorem getOrderedPlots_degrades_witness:
  "getOrderedPlots_settle FetchRejects 90000
     \<lparr> orderedPlotsCache = PlotArray [\<lparr> plot_id = ''a'', customer_name = ''Asha'',
         order_status = Pending, order_date = ''2025-01-01'' \<rparr>],
       cacheTimestamp = 1000, isLoading = True \<rparr> =
     (Returns (PlotArray [\<lparr> plot_id = ''a'', customer_name = ''Asha'',
         order_status = Pending, order_date = ''2025-01-01'' \<rparr>]),
      \<lparr> orderedPlotsCache = PlotArray [\<lparr> plot_id = ''a'', customer_name = ''Asha'',
         order_status = Pending, order_date = ''2025-01-01'' \<rparr>],
       cacheTimestamp = 1000, isLoading = False \<rparr>) \<and>
   getOrderedPlots_settle (Response False 503 JsonRejects) 90000
     \<lparr> orderedPlotsCache = PlotArray [], cacheTimestamp = 0, isLoading = True \<rparr> =
     (Returns (PlotArray []),
      \<lparr> orderedPlotsCache = PlotArray [], cacheTimestamp = 0, isLoading = False \<rparr>)"
  using
    getOrderedPlots_degrades [of 90000
      "\<lparr> orderedPlotsCache = PlotArray [\<lparr> plot_id = ''a'', customer_name = ''Asha'',
         order_status = Pending, order_date = ''2025-01-01'' \<rparr>],
       cacheTimestamp = 1000, isLoading = True \<rparr>" FetchRejects]
    getOrderedPlots_degrades [of 90000
      "\<lparr> orderedPlotsCache = PlotArray [], cacheTimestamp = 0, isLoading = True \<rparr>"
      "Response False 503 JsonRejects"]
  by simp

text \<open>
  Claim C5. \<^verbatim>\<open>enrichPlotsWithOrderStatus\<close> returns for every settlement of
  \<^verbatim>\<open>getOrderedPlots\<close> and every plot list. Its \<^verbatim>\<open>try\<close> block throws exactly when
  \<^verbatim>\<open>getOrderedPlots\<close> threw or returned a value that is not an array; the result is then
  the input list, plot by plot, with \<open>hasActiveOrder = False\<close> and id, status and the
  other fields unchanged.
\<close>

theorem enrich_never_throws:
  fixes plots :: "'a Plot list"
  shows "(\<exists>out. enrichPlotsWithOrderStatus awaited plots = Inr out) \<and>
   ((\<exists>e. enrich_try awaited plots = Inl e) \<longleftrightarrow>
      (\<exists>e. awaited = Inl e) \<or> (\<exists>b. awaited = Inr (NonArray b))) \<and>
   ((\<exists>e. enrich_try awaited plots = Inl e) \<longrightarrow>
      (\<exists>out. enrichPlotsWithOrderStatus awaited plots = Inr out \<and>
         length out = length plots \<and>
         (\<forall>i<length plots.
            \<not> hasActiveOrder (out ! i) \<and>
            id' (out ! i) = id' (plots ! i) \<and>
            status (out ! i) = status (plots ! i) \<and>
            rest (out ! i) = rest (plots ! i))))"
proof (intro conjI impI)
  show "\<exists>out. enrichPlotsWithOrderStatus awaited plots = Inr out"
    by (cases "enrich_try awaited plots") (simp_all add: enrichPlotsWithOrderStatus_def)
  show "(\<exists>e. enrich_try awaited plots = Inl e) \<longleftrightarrow>
      (\<exists>e. awaited = Inl e) \<or> (\<exists>b. awaited = Inr (NonArray b))"
    by (auto simp: enrich_try_def split: sum.splits ordered_plots_value.splits)
next
  assume "\<exists>e. enrich_try awaited plots = Inl e"
  then have "enrichPlotsWithOrderStatus awaited plots = Inr (map enrich_fallback plots)"
    by (auto simp: enrichPlotsWithOrderStatus_def)
  moreover have "\<forall>i<length plots.
            \<not> hasActiveOrder (map enrich_fallback plots ! i) \<and>
            id' (map enrich_fallback plots ! i) = id' (plots ! i) \<and>
            status (map enrich_fallback plots ! i) = status (plots ! i) \<and>
            rest (map enrich_fallback plots ! i) = rest (plots ! i)"
    by (simp add: enrich_fallback_def)
  ultimately show "\<exists>out. enrichPlotsWithOrderStatus awaited plots = Inr out \<and>
         length out = length plots \<and>
         (\<forall>i<length plots.
            \<not> hasActiveOrder (out ! i) \<and>
            id' (out ! i) = id' (plots ! i) \<and>
            status (out ! i) = status (plots ! i) \<and>
            rest (out ! i) = rest (plots ! i))"
    by simp
qed

text \<open>C5 at a response whose \<^verbatim>\<open>ordered_plots\<close> is an object, not an array.\<close>

theorem enrich_never_throws_witness:
  "\<exists>out. enrichPlotsWithOrderStatus (Inr (NonArray False))
     [\<lparr> id' = ''a'', status = ''taken'', rest = () \<rparr>] = Inr out \<and>
     length out = 1 \<and> \<not> hasActiveOrder (out ! 0) \<and>
     id' (out ! 0) = ''a'' \<and> status (out ! 0) = ''taken''"
proof -
  let ?plots = "[\<lparr> id' = ''a'', status = ''taken'', rest = () \<rparr>]"
  have err: "\<exists>e. enrich_try (Inr (NonArray False)) ?plots = Inl e"
    by (simp add: enrich_try_def)
  with enrich_never_throws [of "Inr (NonArray False)" ?plots]
  obtain out where run: "enrichPlotsWithOrderStatus (Inr (NonArray False)) ?plots = Inr out"
    and len: "length out = length ?plots"
    and all: "\<forall>i<length ?plots.
            \<not> hasActiveOrder (out ! i) \<and>
            id' (out ! i) = id' (?plots ! i) \<and>
            status (out ! i) = status (?plots ! i) \<and>
            rest (out ! i) = rest (?plots ! i)"
    by blast
  from all [rule_format, of 0] have "\<not> hasActiveOrder (out ! 0) \<and>
     id' (out ! 0) = ''a'' \<and> status (out ! 0) = ''taken''"
    by simp
  with run len show ?thesis by simp
qed

subsection \<open>Two calls, one request\<close>


text \<open>A waiting call whose timer expires while a request is in flight keeps waiting.\<close>

lemma wake_while_loading:
  assumes "calls sys c = Waiting" and "isLoading (shared sys)"
  shows "step (Wake c now) sys = Some sys"
proof -
  have "(calls sys)(c := Waiting) = calls sys"
    using assms(1) by (simp add: fun_upd_idem)
  then show ?thesis
    using assms by (simp add: getOrderedPlots_wake_def advance_def)
qed


text \<open>
  While call 0 awaits its request and call 1 waits, the only events of the two calls that
  are possible are an expiry of the timer of call 1, which changes nothing, and the
  settling of the request. So every schedule of the two calls from there on is a sequence
  of such expiries, followed by the settling if it comes; once the request has settled,
  only the timer of call 1 can fire.
\<close>

lemma events_while_fetching:
  assumes "calls sys 0 = Fetching" and "calls sys 1 = Waiting" and "isLoading (shared sys)"
    and "call_of e < 2" and "step e sys = Some sys'"
  shows "(\<exists>t. e = Wake 1 t \<and> sys' = sys) \<or> (\<exists>outcome t. e = Settle 0 outcome t)"
proof -
  from \<open>call_of e < 2\<close> have c: "call_of e = 0 \<or> call_of e = 1" by auto
  show ?thesis
  proof (cases e)
    case (Enter c t)
    with c assms show ?thesis by (auto split: if_splits)
  next
    case (Wake c t)
    with c assms(1,2,5) have "c = 1" by (auto split: if_splits)
    with Wake assms(2,3,5) wake_while_loading [of sys 1 t] show ?thesis by simp
  next
    case (Settle c outcome t)
    with c assms show ?thesis by (auto split: if_splits)
  qed
qed

lemma schedule_shape:
  assumes "calls sys 0 = Fetching" and "calls sys 1 = Waiting" and "isLoading (shared sys)"
    and "\<forall>e\<in>set evs. call_of e < 2" and "run evs sys = Some sys'"
  shows "(\<exists>ws. evs = map (Wake 1) ws) \<or>
         (\<exists>ws outcome t rest. evs = map (Wake 1) ws @ Settle 0 outcome t # rest)"
  using assms(4,5)
proof (induction evs)
  case Nil
  then show ?case by simp
next
  case (Cons e evs)
  from Cons.prems obtain sys1 where s1: "step e sys = Some sys1" and r: "run evs sys1 = Some sys'"
    by (auto split: option.splits)
  from Cons.prems have "call_of e < 2" by simp
  from events_while_fetching [OF assms(1-3) this s1]
  show ?case
  proof
    assume "\<exists>t. e = Wake 1 t \<and> sys1 = sys"
    then obtain t where e: "e = Wake 1 t" and "sys1 = sys" by blast
    with r Cons.prems Cons.IH
    have "(\<exists>ws. evs = map (Wake 1) ws) \<or>
         (\<exists>ws outcome t rest. evs = map (Wake 1) ws @ Settle 0 outcome t # rest)" by simp
    then show ?case
    proof
      assume "\<exists>ws. evs = map (Wake 1) ws"
      then obtain ws where "evs = map (Wake 1) ws" ..
      with e have "e # evs = map (Wake 1) (t # ws)" by simp
      then have "\<exists>ws'. e # evs = map (Wake 1) ws'" by (rule exI)
      then show ?case by (rule disjI1)
    next
      assume "\<exists>ws outcome t rest. evs = map (Wake 1) ws @ Settle 0 outcome t # rest"
      then obtain ws outcome t' rest where "evs = map (Wake 1) ws @ Settle 0 outcome t' # rest"
        by blast
      with e have "e # evs = map (Wake 1) (t # ws) @ Settle 0 outcome t' # rest" by simp
      then have "\<exists>ws' outcome t rest. e # evs = map (Wake 1) ws' @ Settle 0 outcome t # rest"
        by (intro exI)
      then show ?case by (rule disjI2)
    qed
  next
    assume "\<exists>outcome t. e = Settle 0 outcome t"
    then obtain outcome t where "e = Settle 0 outcome t" by blast
    then have "e # evs = map (Wake 1) [] @ Settle 0 outcome t # evs" by simp
    then have "\<exists>ws' outcome t rest. e # evs = map (Wake 1) ws' @ Settle 0 outcome t # rest"
      by (intro exI)
    then show ?case by (rule disjI2)
  qed
qed

lemma events_after_settling:
  assumes "calls sys 0 = Finished v" and "calls sys 1 = Waiting"
    and "call_of e < 2" and "step e sys = Some sys'"
  shows "\<exists>t. e = Wake 1 t"
proof -
  from \<open>call_of e < 2\<close> have c: "call_of e = 0 \<or> call_of e = 1" by auto
  with assms show ?thesis by (cases e) (auto split: if_splits)
qed




subsection \<open>Order submission\<close>

text \<open>
  Claim C3. With a plot selected the handler sets the optimistic list and suspends holding
  the list it started from. When \<^verbatim>\<open>createOrder\<close> rejects, whatever the state is at that
  moment, the plot list becomes that held list again, an error message is set, and the
  order-status cache, the dialog and the selection are left as they are. When it resolves,
  whatever the state is at that moment, the cache is emptied and its timestamp reset, so
  that it is not valid at any time from 30000 ms on, the dialog is closed, the selection
  cleared, and the plot list is left as it is, the optimistic one. A run of the handler
  that changes the cache or the dialog flag is a run with a plot selected whose
  \<^verbatim>\<open>createOrder\<close> resolved.
\<close>

theorem order_submit_rollback:
  fixes st :: "'a view_state"
  shows
  "(selectedPlot st = Some selected \<longrightarrow>
      handleOrderSubmit_start orderData isoNow st =
        (AwaitsCreateOrder (plots st),
         st\<lparr> orderError := None,
             plots := optimisticPlots (plots st) selected orderData isoNow \<rparr>)) \<and>
   (\<forall>st' :: 'a view_state.
      plots (handleOrderSubmit_settle originalPlots (OrderFailed err) st') = originalPlots \<and>
      orderError (handleOrderSubmit_settle originalPlots (OrderFailed err) st') =
        Some (''Failed to submit order: '' @ errorMessage err) \<and>
      plotManagementService (handleOrderSubmit_settle originalPlots (OrderFailed err) st') =
        plotManagementService st' \<and>
      isModalOpen (handleOrderSubmit_settle originalPlots (OrderFailed err) st') =
        isModalOpen st' \<and>
      selectedPlot (handleOrderSubmit_settle originalPlots (OrderFailed err) st') =
        selectedPlot st') \<and>
   (\<forall>st' :: 'a view_state.
      orderedPlotsCache (plotManagementService
        (handleOrderSubmit_settle originalPlots OrderCreated st')) = PlotArray [] \<and>
      cacheTimestamp (plotManagementService
        (handleOrderSubmit_settle originalPlots OrderCreated st')) = 0 \<and>
      isLoading (plotManagementService
        (handleOrderSubmit_settle originalPlots OrderCreated st')) =
        isLoading (plotManagementService st') \<and>
      (\<forall>now\<ge>cacheExpirationMs. \<not> isCacheValid now (plotManagementService
        (handleOrderSubmit_settle originalPlots OrderCreated st'))) \<and>
      \<not> isModalOpen (handleOrderSubmit_settle originalPlots OrderCreated st') \<and>
      selectedPlot (handleOrderSubmit_settle originalPlots OrderCreated st') = None \<and>
      plots (handleOrderSubmit_settle originalPlots OrderCreated st') = plots st' \<and>
      orderError (handleOrderSubmit_settle originalPlots OrderCreated st') = orderError st') \<and>
   (selectedPlot st \<noteq> None \<longrightarrow>
      plots (handleOrderSubmit orderData isoNow (OrderFailed err) st) = plots st \<and>
      orderError (handleOrderSubmit orderData isoNow (OrderFailed err) st) \<noteq> None \<and>
      plotManagementService (handleOrderSubmit orderData isoNow (OrderFailed err) st) =
        plotManagementService st \<and>
      isModalOpen (handleOrderSubmit orderData isoNow (OrderFailed err) st) = isModalOpen st) \<and>
   (selectedPlot st \<noteq> None \<longrightarrow>
      plotManagementService (handleOrderSubmit orderData isoNow OrderCreated st) =
        invalidateCache (plotManagementService st) \<and>
      \<not> isModalOpen (handleOrderSubmit orderData isoNow OrderCreated st) \<and>
      selectedPlot (handleOrderSubmit orderData isoNow OrderCreated st) = None \<and>
      orderError (handleOrderSubmit orderData isoNow OrderCreated st) = None) \<and>
   (selectedPlot st = Some selected \<longrightarrow>
      orderedPlotsCache (plotManagementService
        (handleOrderSubmit orderData isoNow OrderCreated st)) = PlotArray [] \<and>
      cacheTimestamp (plotManagementService
        (handleOrderSubmit orderData isoNow OrderCreated st)) = 0 \<and>
      plots (handleOrderSubmit orderData isoNow OrderCreated st) =
        optimisticPlots (plots st) selected orderData isoNow) \<and>
   (plotManagementService (handleOrderSubmit orderData isoNow outcome st) \<noteq>
        plotManagementService st \<or>
      isModalOpen (handleOrderSubmit orderData isoNow outcome st) \<noteq> isModalOpen st \<longrightarrow>
      outcome = OrderCreated \<and> selectedPlot st \<noteq> None)"
proof (intro conjI allI impI)
  assume "selectedPlot st = Some selected"
  then show "handleOrderSubmit_start orderData isoNow st =
        (AwaitsCreateOrder (plots st),
         st\<lparr> orderError := None,
             plots := optimisticPlots (plots st) selected orderData isoNow \<rparr>)"
    by (simp add: handleOrderSubmit_start_def)
next
  assume "plotManagementService (handleOrderSubmit orderData isoNow outcome st) \<noteq>
        plotManagementService st \<or>
      isModalOpen (handleOrderSubmit orderData isoNow outcome st) \<noteq> isModalOpen st"
  then show "outcome = OrderCreated" "selectedPlot st \<noteq> None"
    by (cases outcome; cases "selectedPlot st";
        simp add: handleOrderSubmit_def handleOrderSubmit_start_def)+
next
  fix st' :: "'a view_state" and now :: int
  assume "cacheExpirationMs \<le> now"
  then show "\<not> isCacheValid now (plotManagementService
        (handleOrderSubmit_settle originalPlots OrderCreated st'))"
    by (simp add: isCacheValid_def invalidateCache_def)
qed (auto simp: handleOrderSubmit_def handleOrderSubmit_start_def invalidateCache_def)

text \<open>
  C3 at two plots with the first selected and a cache of one record: the optimistic list
  differs from the original one; a rejected \<^verbatim>\<open>createOrder\<close> brings the original back
  with the cache and the dialog untouched; a resolved one empties the cache, resets its
  timestamp and closes the dialog, the optimistic list staying.
\<close>

theorem order_submit_rollback_witness:
  "fst (handleOrderSubmit_start \<lparr> first_name = ''Asha'', last_name = ''Mushi'' \<rparr> ''2025-03-01T10:00:00.000Z''
     \<lparr> plots =
         [\<lparr> id' = ''a'', status = ''available'', rest = (), hasActiveOrder = False,
            orderStatus = None, orderDate = None, customerName = None \<rparr>,
          \<lparr> id' = ''b'', status = ''taken'', rest = (), hasActiveOrder = False,
            orderStatus = None, orderDate = None, customerName = None \<rparr>],
       selectedPlot =
         Some \<lparr> id' = ''a'', status = ''available'', rest = (), hasActiveOrder = False,
            orderStatus = None, orderDate = None, customerName = None \<rparr>,
       orderError = None, isModalOpen = True,
       plotManagementService =
         \<lparr> orderedPlotsCache = PlotArray
             [\<lparr> plot_id = ''b'', customer_name = ''Juma'', order_status = Approved,
              order_date = ''2025-02-02'' \<rparr>],
           cacheTimestamp = 1700000000000, isLoading = False \<rparr> \<rparr>) =
     AwaitsCreateOrder
         [\<lparr> id' = ''a'', status = ''available'', rest = (), hasActiveOrder = False,
            orderStatus = None, orderDate = None, customerName = None \<rparr>,
          \<lparr> id' = ''b'', status = ''taken'', rest = (), hasActiveOrder = False,
            orderStatus = None, orderDate = None, customerName = None \<rparr>] \<and>
   plots (snd (handleOrderSubmit_start \<lparr> first_name = ''Asha'', last_name = ''Mushi'' \<rparr> ''2025-03-01T10:00:00.000Z''
     \<lparr> plots =
         [\<lparr> id' = ''a'', status = ''available'', rest = (), hasActiveOrder = False,
            orderStatus = None, orderDate = None, customerName = None \<rparr>,
          \<lparr> id' = ''b'', status = ''taken'', rest = (), hasActiveOrder = False,
            orderStatus = None, orderDate = None, customerName = None \<rparr>],
       selectedPlot =
         Some \<lparr> id' = ''a'', status = ''available'', rest = (), hasActiveOrder = False,
            orderStatus = None, orderDate = None, customerName = None \<rparr>,
       orderError = None, isModalOpen = True,
       plotManagementService =
         \<lparr> orderedPlotsCache = PlotArray
             [\<lparr> plot_id = ''b'', customer_name = ''Juma'', order_status = Approved,
              order_date = ''2025-02-02'' \<rparr>],
           cacheTimestamp = 1700000000000, isLoading = False \<rparr> \<rparr>)) =
         [\<lparr> id' = ''a'', status = ''pending'', rest = (), hasActiveOrder = True,
            orderStatus = Some Pending, orderDate = Some ''2025-03-01T10:00:00.000Z'',
            customerName = Some ''Asha Mushi'' \<rparr>,
          \<lparr> id' = ''b'', status = ''taken'', rest = (), hasActiveOrder = False,
            orderStatus = None, orderDate = None, customerName = None \<rparr>] \<and>
   plots (handleOrderSubmit \<lparr> first_name = ''Asha'', last_name = ''Mushi'' \<rparr> ''2025-03-01T10:00:00.000Z''
     (OrderFailed (Error ''Network Error''))
     \<lparr> plots =
         [\<lparr> id' = ''a'', status = ''available'', rest = (), hasActiveOrder = False,
            orderStatus = None, orderDate = None, customerName = None \<rparr>,
          \<lparr> id' = ''b'', status = ''taken'', rest = (), hasActiveOrder = False,
            orderStatus = None, orderDate = None, customerName = None \<rparr>],
       selectedPlot =
         Some \<lparr> id' = ''a'', status = ''available'', rest = (), hasActiveOrder = False,
            orderStatus = None, orderDate = None, customerName = None \<rparr>,
       orderError = None, isModalOpen = True,
       plotManagementService =
         \<lparr> orderedPlotsCache = PlotArray
             [\<lparr> plot_id = ''b'', customer_name = ''Juma'', order_status = Approved,
              order_date = ''2025-02-02'' \<rparr>],
           cacheTimestamp = 1700000000000, isLoading = False \<rparr> \<rparr>) =
         [\<lparr> id' = ''a'', status = ''available'', rest = (), hasActiveOrder = False,
            orderStatus = None, orderDate = None, customerName = None \<rparr>,
          \<lparr> id' = ''b'', status = ''taken'', rest = (), hasActiveOrder = False,
            orderStatus = None, orderDate = None, customerName = None \<rparr>] \<and>
   plotManagementService (handleOrderSubmit \<lparr> first_name = ''Asha'', last_name = ''Mushi'' \<rparr> ''2025-03-01T10:00:00.000Z''
     (OrderFailed (Error ''Network Error''))
     \<lparr> plots =
         [\<lparr> id' = ''a'', status = ''available'', rest = (), hasActiveOrder = False,
            orderStatus = None, orderDate = None, customerName = None \<rparr>,
          \<lparr> id' = ''b'', status = ''taken'', rest = (), hasActiveOrder = False,
            orderStatus = None, orderDate = None, customerName = None \<rparr>],
       selectedPlot =
         Some \<lparr> id' = ''a'', status = ''available'', rest = (), hasActiveOrder = False,
            orderStatus = None, orderDate = None, customerName = None \<rparr>,
       orderError = None, isModalOpen = True,
       plotManagementService =
         \<lparr> orderedPlotsCache = PlotArray
             [\<lparr> plot_id = ''b'', customer_name = ''Juma'', order_status = Approved,
              order_date = ''2025-02-02'' \<rparr>],
           cacheTimestamp = 1700000000000, isLoading = False \<rparr> \<rparr>) =
         \<lparr> orderedPlotsCache = PlotArray
             [\<lparr> plot_id = ''b'', customer_name = ''Juma'', order_status = Approved,
              order_date = ''2025-02-02'' \<rparr>],
           cacheTimestamp = 1700000000000, isLoading = False \<rparr> \<and>
   isModalOpen (handleOrderSubmit \<lparr> first_name = ''Asha'', last_name = ''Mushi'' \<rparr> ''2025-03-01T10:00:00.000Z''
     (OrderFailed (Error ''Network Error''))
     \<lparr> plots =
         [\<lparr> id' = ''a'', status = ''available'', rest = (), hasActiveOrder = False,
            orderStatus = None, orderDate = None, customerName = None \<rparr>,
          \<lparr> id' = ''b'', status = ''taken'', rest = (), hasActiveOrder = False,
            orderStatus = None, orderDate = None, customerName = None \<rparr>],
       selectedPlot =
         Some \<lparr> id' = ''a'', status = ''available'', rest = (), hasActiveOrder = False,
            orderStatus = None, orderDate = None, customerName = None \<rparr>,
       orderError = None, isModalOpen = True,
       plotManagementService =
         \<lparr> orderedPlotsCache = PlotArray
             [\<lparr> plot_id = ''b'', customer_name = ''Juma'', order_status = Approved,
              order_date = ''2025-02-02'' \<rparr>],
           cacheTimestamp = 1700000000000, isLoading = False \<rparr> \<rparr>) \<and>
   plotManagementService (handleOrderSubmit \<lparr> first_name = ''Asha'', last_name = ''Mushi'' \<rparr> ''2025-03-01T10:00:00.000Z''
     OrderCreated
     \<lparr> plots =
         [\<lparr> id' = ''a'', status = ''available'', rest = (), hasActiveOrder = False,
            orderStatus = None, orderDate = None, customerName = None \<rparr>,
          \<lparr> id' = ''b'', status = ''taken'', rest = (), hasActiveOrder = False,
            orderStatus = None, orderDate = None, customerName = None \<rparr>],
       selectedPlot =
         Some \<lparr> id' = ''a'', status = ''available'', rest = (), hasActiveOrder = False,
            orderStatus = None, orderDate = None, customerName = None \<rparr>,
       orderError = None, isModalOpen = True,
       plotManagementService =
         \<lparr> orderedPlotsCache = PlotArray
             [\<lparr> plot_id = ''b'', customer_name = ''Juma'', order_status = Approved,
              order_date = ''2025-02-02'' \<rparr>],
           cacheTimestamp = 1700000000000, isLoading = False \<rparr> \<rparr>) =
         \<lparr> orderedPlotsCache = PlotArray [], cacheTimestamp = 0, isLoading = False \<rparr> \<and>
   \<not> isModalOpen (handleOrderSubmit \<lparr> first_name = ''Asha'', last_name = ''Mushi'' \<rparr> ''2025-03-01T10:00:00.000Z''
     OrderCreated
     \<lparr> plots =
         [\<lparr> id' = ''a'', status = ''available'', rest = (), hasActiveOrder = False,
            orderStatus = None, orderDate = None, customerName = None \<rparr>,
          \<lparr> id' = ''b'', status = ''taken'', rest = (), hasActiveOrder = False,
            orderStatus = None, orderDate = None, customerName = None \<rparr>],
       selectedPlot =
         Some \<lparr> id' = ''a'', status = ''available'', rest = (), hasActiveOrder = False,
            orderStatus = None, orderDate = None, customerName = None \<rparr>,
       orderError = None, isModalOpen = True,
       plotManagementService =
         \<lparr> orderedPlotsCache = PlotArray
             [\<lparr> plot_id = ''b'', customer_name = ''Juma'', order_status = Approved,
              order_date = ''2025-02-02'' \<rparr>],
           cacheTimestamp = 1700000000000, isLoading = False \<rparr> \<rparr>) \<and>
   plots (handleOrderSubmit \<lparr> first_name = ''Asha'', last_name = ''Mushi'' \<rparr> ''2025-03-01T10:00:00.000Z''
     OrderCreated
     \<lparr> plots =
         [\<lparr> id' = ''a'', status = ''available'', rest = (), hasActiveOrder = False,
            orderStatus = None, orderDate = None, customerName = None \<rparr>,
          \<lparr> id' = ''b'', status = ''taken'', rest = (), hasActiveOrder = False,
            orderStatus = None, orderDate = None, customerName = None \<rparr>],
       selectedPlot =
         Some \<lparr> id' = ''a'', status = ''available'', rest = (), hasActiveOrder = False,
            orderStatus = None, orderDate = None, customerName = None \<rparr>,
       orderError = None, isModalOpen = True,
       plotManagementService =
         \<lparr> orderedPlotsCache = PlotArray
             [\<lparr> plot_id = ''b'', customer_name = ''Juma'', order_status = Approved,
              order_date = ''2025-02-02'' \<rparr>],
           cacheTimestamp = 1700000000000, isLoading = False \<rparr> \<rparr>) =
         [\<lparr> id' = ''a'', status = ''pending'', rest = (), hasActiveOrder = True,
            orderStatus = Some Pending, orderDate = Some ''2025-03-01T10:00:00.000Z'',
            customerName = Some ''Asha Mushi'' \<rparr>,
          \<lparr> id' = ''b'', status = ''taken'', rest = (), hasActiveOrder = False,
            orderStatus = None, orderDate = None, customerName = None \<rparr>]"
  using order_submit_rollback [of
     "\<lparr> plots =
         [\<lparr> id' = ''a'', status = ''available'', rest = (), hasActiveOrder = False,
            orderStatus = None, orderDate = None, customerName = None \<rparr>,
          \<lparr> id' = ''b'', status = ''taken'', rest = (), hasActiveOrder = False,
            orderStatus = None, orderDate = None, customerName = None \<rparr>],
       selectedPlot =
         Some \<lparr> id' = ''a'', status = ''available'', rest = (), hasActiveOrder = False,
            orderStatus = None, orderDate = None, customerName = None \<rparr>,
       orderError = None, isModalOpen = True,
       plotManagementService =
         \<lparr> orderedPlotsCache = PlotArray
             [\<lparr> plot_id = ''b'', customer_name = ''Juma'', order_status = Approved,
              order_date = ''2025-02-02'' \<rparr>],
           cacheTimestamp = 1700000000000, isLoading = False \<rparr> \<rparr>"
     "\<lparr> id' = ''a'', status = ''available'', rest = (), hasActiveOrder = False,
            orderStatus = None, orderDate = None, customerName = None \<rparr>"
     "\<lparr> first_name = ''Asha'', last_name = ''Mushi'' \<rparr>" "''2025-03-01T10:00:00.000Z''"
     "[]" "Error ''Network Error''" "OrderCreated"]
  by (simp add: optimisticPlots_def invalidateCache_def)

subsection \<open>Evaluating double arithmetic\<close>

text \<open>
  The equations that compute a rounding on numerals, and the double that the literal
  \<^verbatim>\<open>1e-10\<close> denotes; it is a little above a tenth of a billionth.
\<close>

lemmas double_eval =
  round_double_def binade_def round_half_even_def scale_def fl_def Let_def bits.simps

lemma number_1e_10_value: "number_1e_10 = 7737125245533627 / 2 ^ 86"
  by (simp add: number_1e_10_def double_eval)

subsection \<open>Geometry validation\<close>

text \<open>The boolean of each level is the conjunction over the level below.\<close>

lemma normalizeLoop_ok: "fst (normalizeLoop ring) = list_all isValidCoordinate ring"
  by (induction ring) (auto split: prod.splits)

lemma validateRing_ok: "fst (validateRing ring) = ring_passes ring"
proof (cases "normalizeLoop ring")
  case (Pair ok ring')
  with normalizeLoop_ok [of ring] show ?thesis
    by (auto simp: validateRing_def ring_passes_def)
qed

lemma everyRing_ok: "fst (everyRing rings) = list_all ring_passes rings"
proof (induction rings)
  case Nil
  show ?case by simp
next
  case (Cons ring rings)
  obtain ok ring' where v: "validateRing ring = (ok, ring')" by (cases "validateRing ring")
  with validateRing_ok [of ring] have ok: "ok = ring_passes ring" by simp
  obtain ok' rings' where e: "everyRing rings = (ok', rings')" by (cases "everyRing rings")
  with Cons.IH have "ok' = list_all ring_passes rings" by simp
  with v e ok show ?case by (simp split: bool.splits)
qed

lemma everyPolygon_ok:
  "fst (everyPolygon polygons) =
     list_all (\<lambda>polygon. polygon \<noteq> [] \<and> list_all ring_passes polygon) polygons"
proof (induction polygons)
  case Nil
  show ?case by simp
next
  case (Cons polygon polygons)
  obtain ok polygon' where v: "everyRing polygon = (ok, polygon')" by (cases "everyRing polygon")
  with everyRing_ok [of polygon] have ok: "ok = list_all ring_passes polygon" by simp
  obtain ok' polygons' where e: "everyPolygon polygons = (ok', polygons')"
    by (cases "everyPolygon polygons")
  with Cons.IH have "ok' =
      list_all (\<lambda>polygon. polygon \<noteq> [] \<and> list_all ring_passes polygon) polygons" by simp
  with v e ok show ?case by (simp split: bool.splits)
qed

lemma isValidCoordinate_iff:
  "isValidCoordinate coord \<longleftrightarrow>
     (\<exists>lng lat others. coord = Fin lng # Fin lat # others \<and>
        - 180.1 \<le> lng \<and> lng \<le> 180.1 \<and> - 90.1 \<le> lat \<and> lat \<le> 90.1)"
proof (cases coord)
  case Nil
  then show ?thesis by simp
next
  case (Cons a as)
  show ?thesis
  proof (cases as)
    case Nil
    with Cons show ?thesis by simp
  next
    case (Cons b bs)
    with \<open>coord = a # as\<close> show ?thesis
      by (cases a; cases b) auto
  qed
qed

text \<open>
  Claim C6, amended. \<^verbatim>\<open>isValidGeometry\<close> returns true for a Polygon or MultiPolygon
  exactly when every ring has at least four positions, every position passes the
  coordinate check, and nothing is empty: the Polygon has a ring, the MultiPolygon has a
  polygon and each of its polygons has a ring. The coordinate check passes exactly the
  arrays that start with a finite longitude in \<open>[-180.1, 180.1]\<close> and a finite latitude in
  \<open>[-90.1, 90.1]\<close>.
\<close>

theorem isValidGeometry_iff:
  "(fst (isValidGeometry g) \<longleftrightarrow>
      every_ring_passes g \<and>
      (case g of
         Polygon coordinates \<Rightarrow> coordinates \<noteq> []
       | MultiPolygon coordinates \<Rightarrow> coordinates \<noteq> [] \<and> [] \<notin> set coordinates
       | OtherGeometry \<Rightarrow> False)) \<and>
   (ring_passes ring \<longleftrightarrow> 4 \<le> length ring \<and> (\<forall>coord\<in>set ring. isValidCoordinate coord)) \<and>
   (isValidCoordinate coord \<longleftrightarrow>
     (\<exists>lng lat others. coord = Fin lng # Fin lat # others \<and>
        - 180.1 \<le> lng \<and> lng \<le> 180.1 \<and> - 90.1 \<le> lat \<and> lat \<le> 90.1))"
proof (intro conjI)
  show "fst (isValidGeometry g) \<longleftrightarrow>
      every_ring_passes g \<and>
      (case g of
         Polygon coordinates \<Rightarrow> coordinates \<noteq> []
       | MultiPolygon coordinates \<Rightarrow> coordinates \<noteq> [] \<and> [] \<notin> set coordinates
       | OtherGeometry \<Rightarrow> False)"
  proof (cases g)
    case (Polygon coordinates)
    with everyRing_ok [of coordinates] show ?thesis
      by (cases "everyRing coordinates") auto
  next
    case (MultiPolygon coordinates)
    with everyPolygon_ok [of coordinates] show ?thesis
      by (cases "everyPolygon coordinates") (auto simp: list_all_iff)
  next
    case OtherGeometry
    then show ?thesis by simp
  qed
  show "ring_passes ring \<longleftrightarrow> 4 \<le> length ring \<and> (\<forall>coord\<in>set ring. isValidCoordinate coord)"
    by (simp add: ring_passes_def list_all_iff)
  show "isValidCoordinate coord \<longleftrightarrow>
     (\<exists>lng lat others. coord = Fin lng # Fin lat # others \<and>
        - 180.1 \<le> lng \<and> lng \<le> 180.1 \<and> - 90.1 \<le> lat \<and> lat \<le> 90.1)"
    by (rule isValidCoordinate_iff)
qed

text \<open>
  Claim C6 as stated fails at the Polygon without rings: every ring of it passes, there
  being none, and the source returns false on \<^verbatim>\<open>coordinates.length === 0\<close>.
\<close>

theorem empty_polygon_counterexample:
  "fst (isValidGeometry (Polygon [])) \<noteq> every_ring_passes (Polygon [])"
  by simp


text \<open>
  C6 at a closed square, at a ring of three positions, and at a MultiPolygon with a
  latitude of 91.
\<close>

theorem isValidGeometry_iff_witness:
  "fst (isValidGeometry (Polygon
      [[[Fin 0, Fin 0], [Fin 2, Fin 0], [Fin 2, Fin 2], [Fin 0, Fin 0]]])) \<and>
   \<not> fst (isValidGeometry (Polygon
      [[[Fin 0, Fin 0], [Fin 2, Fin 0], [Fin 0, Fin 0]]])) \<and>
   \<not> fst (isValidGeometry (MultiPolygon
      [[[[Fin 0, Fin 0], [Fin 2, Fin 0], [Fin 2, Fin 91], [Fin 0, Fin 0]]]]))"
  using
    isValidGeometry_iff [of "Polygon
      [[[Fin 0, Fin 0], [Fin 2, Fin 0], [Fin 2, Fin 2], [Fin 0, Fin 0]]]"
      "[[Fin 0, Fin 0], [Fin 2, Fin 0], [Fin 2, Fin 2], [Fin 0, Fin 0]]" "[Fin 0, Fin 0]"]
    isValidGeometry_iff [of "Polygon
      [[[Fin 0, Fin 0], [Fin 2, Fin 0], [Fin 0, Fin 0]]]"
      "[[Fin 0, Fin 0], [Fin 2, Fin 0], [Fin 0, Fin 0]]" "[Fin 2, Fin 0]"]
    isValidGeometry_iff [of "MultiPolygon
      [[[[Fin 0, Fin 0], [Fin 2, Fin 0], [Fin 2, Fin 91], [Fin 0, Fin 0]]]]"
      "[[Fin 0, Fin 0], [Fin 2, Fin 0], [Fin 2, Fin 91], [Fin 0, Fin 0]]" "[Fin 2, Fin 91]"]
  by simp

text \<open>What a ring that passes holds afterwards.\<close>

lemma normalizeLoop_result:
  "list_all isValidCoordinate ring \<Longrightarrow> snd (normalizeLoop ring) = map normalizeCoordinate ring"
  by (induction ring) (auto split: prod.splits)

lemma normalizeCoordinate_valid:
  "isValidCoordinate coord \<Longrightarrow> normalizeCoordinate coord = clamped_position coord"
  by (auto simp: isValidCoordinate_iff normalizeCoordinate_def clamped_position_def elem_def)

lemma clamped_position_elems:
  "[clamped_position coord ! 0, clamped_position coord ! Suc 0] = clamped_position coord"
  "elem (clamped_position coord) 0 = clamped_position coord ! 0"
  "elem (clamped_position coord) (Suc 0) = clamped_position coord ! Suc 0"
  by (simp_all add: clamped_position_def elem_def)

lemma closeRing_clamped:
  assumes "ring \<noteq> []"
  shows "closeRing (map clamped_position ring) = expected_ring ring"
proof -
  let ?r = "map clamped_position ring"
  have first: "?r ! 0 = clamped_position (hd ring)"
    using assms by (simp add: hd_conv_nth)
  have final: "?r ! (length ?r - 1) = clamped_position (last ring)"
    using assms by (simp add: last_conv_nth)
  have split: "?r = map clamped_position (butlast ring) @ [clamped_position (last ring)]"
    using assms by (metis append_butlast_last_id list.simps(8,9) map_append)
  have upd: "?r[length ?r - 1 := p] = map clamped_position (butlast ring) @ [p]" for p
    by (subst split) (simp add: list_update_append)
  show ?thesis
    unfolding closeRing_def expected_ring_def Let_def first final upd
    using split by (simp add: clamped_position_elems)
qed

lemma validateRing_result:
  assumes "fst (validateRing ring)"
  shows "snd (validateRing ring) = expected_ring ring"
proof -
  from assms have pass: "ring_passes ring" by (simp add: validateRing_ok)
  then have len: "4 \<le> length ring" and all: "list_all isValidCoordinate ring"
    by (simp_all add: ring_passes_def)
  from all have "map normalizeCoordinate ring = map clamped_position ring"
    by (simp add: list_all_iff normalizeCoordinate_valid)
  with all have loop: "normalizeLoop ring = (True, map clamped_position ring)"
    using normalizeLoop_ok [of ring] normalizeLoop_result [of ring]
    by (cases "normalizeLoop ring") simp
  from len have "ring \<noteq> []" by auto
  with loop len show ?thesis
    by (simp add: validateRing_def closeRing_clamped)
qed

lemma everyRing_result:
  "fst (everyRing rings) \<Longrightarrow> snd (everyRing rings) = map expected_ring rings"
proof (induction rings)
  case Nil
  show ?case by simp
next
  case (Cons ring rings)
  obtain ok ring' where v: "validateRing ring = (ok, ring')" by (cases "validateRing ring")
  obtain ok' rings' where e: "everyRing rings = (ok', rings')" by (cases "everyRing rings")
  from Cons.prems v e have ok: "ok" and ok': "ok'"
    by (simp_all split: bool.splits)
  from ok v validateRing_result [of ring] have "ring' = expected_ring ring" by simp
  moreover from ok' e Cons.IH have "rings' = map expected_ring rings" by simp
  ultimately show ?case using v e ok by simp
qed

lemma everyPolygon_result:
  "fst (everyPolygon polygons) \<Longrightarrow>
     snd (everyPolygon polygons) = map (map expected_ring) polygons"
proof (induction polygons)
  case Nil
  show ?case by simp
next
  case (Cons polygon polygons)
  obtain ok polygon' where v: "everyRing polygon = (ok, polygon')" by (cases "everyRing polygon")
  obtain ok' polygons' where e: "everyPolygon polygons = (ok', polygons')"
    by (cases "everyPolygon polygons")
  from Cons.prems v e have ne: "polygon \<noteq> []" and ok: "ok" and ok': "ok'"
    by (simp_all split: bool.splits if_splits)
  from ok v everyRing_result [of polygon] have "polygon' = map expected_ring polygon" by simp
  moreover from ok' e Cons.IH have "polygons' = map (map expected_ring) polygons" by simp
  ultimately show ?case using v e ok ne by simp
qed

text \<open>
  Claim C10, amended. For a Polygon or MultiPolygon in which nothing is empty and every
  ring passes, \<^verbatim>\<open>isValidGeometry\<close> returns true and the geometry it was given holds
  afterwards, ring by ring, the \<open>expected_ring\<close> of what it held: every position replaced
  by the pair of its longitude clamped to \<open>[-180, 180]\<close> and its latitude clamped to
  \<open>[-90, 90]\<close>, and the last position replaced by a copy of the first when the two, after
  clamping, differ by more than \<open>1e-10\<close> in longitude or in latitude, as double
  arithmetic computes it.
\<close>

theorem isValidGeometry_mutates:
  "every_ring_passes g \<and>
   (case g of
      Polygon coordinates \<Rightarrow> coordinates \<noteq> []
    | MultiPolygon coordinates \<Rightarrow> coordinates \<noteq> [] \<and> [] \<notin> set coordinates
    | OtherGeometry \<Rightarrow> False) \<longrightarrow>
   isValidGeometry g =
     (True,
      case g of
        Polygon coordinates \<Rightarrow> Polygon (map expected_ring coordinates)
      | MultiPolygon coordinates \<Rightarrow> MultiPolygon (map (map expected_ring) coordinates)
      | OtherGeometry \<Rightarrow> OtherGeometry)"
proof (cases g)
  case (Polygon coordinates)
  show ?thesis
  proof
    assume a: "every_ring_passes g \<and>
      (case g of
         Polygon coordinates \<Rightarrow> coordinates \<noteq> []
       | MultiPolygon coordinates \<Rightarrow> coordinates \<noteq> [] \<and> [] \<notin> set coordinates
       | OtherGeometry \<Rightarrow> False)"
    with Polygon have ok: "fst (everyRing coordinates)" and ne: "coordinates \<noteq> []"
      by (simp_all add: everyRing_ok)
    from ok everyRing_result [of coordinates]
    have "everyRing coordinates = (True, map expected_ring coordinates)"
      by (cases "everyRing coordinates") simp
    with Polygon ne show "isValidGeometry g =
     (True,
      case g of
        Polygon coordinates \<Rightarrow> Polygon (map expected_ring coordinates)
      | MultiPolygon coordinates \<Rightarrow> MultiPolygon (map (map expected_ring) coordinates)
      | OtherGeometry \<Rightarrow> OtherGeometry)"
      by simp
  qed
next
  case (MultiPolygon coordinates)
  show ?thesis
  proof
    assume a: "every_ring_passes g \<and>
      (case g of
         Polygon coordinates \<Rightarrow> coordinates \<noteq> []
       | MultiPolygon coordinates \<Rightarrow> coordinates \<noteq> [] \<and> [] \<notin> set coordinates
       | OtherGeometry \<Rightarrow> False)"
    with MultiPolygon have ok: "fst (everyPolygon coordinates)" and ne: "coordinates \<noteq> []"
      by (auto simp: everyPolygon_ok list_all_iff)
    from ok everyPolygon_result [of coordinates]
    have "everyPolygon coordinates = (True, map (map expected_ring) coordinates)"
      by (cases "everyPolygon coordinates") simp
    with MultiPolygon ne show "isValidGeometry g =
     (True,
      case g of
        Polygon coordinates \<Rightarrow> Polygon (map expected_ring coordinates)
      | MultiPolygon coordinates \<Rightarrow> MultiPolygon (map (map expected_ring) coordinates)
      | OtherGeometry \<Rightarrow> OtherGeometry)"
      by simp
  qed
next
  case OtherGeometry
  then show ?thesis by simp
qed

text \<open>
  Claim C10 as stated fails at a ring whose first longitude lies in the tolerance above
  180: the first and the last position it is given differ by more than \<open>1e-10\<close>, the
  clamped ones do not, and the last position is left as it is, not a copy of the first.
\<close>

theorem closing_after_clamping_counterexample:
  "1 / 10 ^ 10 < \<bar>(180.0625 :: real) - (180 - 1 / 2 ^ 40)\<bar> \<and>
   isValidGeometry (Polygon
      [[[Fin 180.0625, Fin 0], [Fin 10, Fin 10], [Fin 10, Fin 20],
        [Fin (180 - 1 / 2 ^ 40), Fin 0]]]) =
     (True, Polygon
      [[[Fin 180, Fin 0], [Fin 10, Fin 10], [Fin 10, Fin 20],
        [Fin (180 - 1 / 2 ^ 40), Fin 0]]])"
  by (simp add: validateRing_def closeRing_def normalizeCoordinate_def elem_def differs_def
      number_1e_10_value double_eval)

text \<open>
  The ring afterwards, position by position: all but the last are the clamped positions,
  which lie within the geographic bounds; the last is the clamped first or the clamped
  last.
\<close>

lemma clamped_position_bounds:
  assumes "isValidCoordinate coord"
  shows "\<exists>lng lat. clamped_position coord = [Fin lng, Fin lat] \<and>
           - 180 \<le> lng \<and> lng \<le> 180 \<and> - 90 \<le> lat \<and> lat \<le> 90"
  using assms by (auto simp: isValidCoordinate_iff clamped_position_def)

lemma expected_ring_length: "length (expected_ring ring) = Suc (length ring - 1)"
  by (simp add: expected_ring_def Let_def)

lemma expected_ring_nth:
  assumes "i < length ring - 1"
  shows "expected_ring ring ! i = clamped_position (ring ! i)"
  using assms by (simp add: expected_ring_def Let_def nth_append nth_butlast)

lemma expected_ring_last:
  "last (expected_ring ring) =
     (if differs (clamped_position (hd ring) ! 0) (clamped_position (last ring) ! 0) \<or>
         differs (clamped_position (hd ring) ! 1) (clamped_position (last ring) ! 1)
      then clamped_position (hd ring) else clamped_position (last ring))"
  by (simp add: expected_ring_def Let_def)

text \<open>The comparison at the values of the rings below.\<close>

lemma differs_examples:
  "differs (Fin 180) (Fin 179)"
  "\<not> differs (Fin 0) (Fin 0)"
  "\<not> differs (Fin 1) (Fin 1)"
  "\<not> differs (Fin 2) (Fin 2)"
  by (simp_all add: differs_def number_1e_10_value double_eval)

text \<open>
  C10, amended, at a Polygon with a longitude and a latitude inside the tolerance and an
  open end, where both are clamped and the last position becomes a copy of the first, and
  at a MultiPolygon with a closed ring, where a latitude is clamped.
\<close>

theorem isValidGeometry_mutates_witness:
  "isValidGeometry (Polygon
      [[[Fin 180.0625, Fin 0], [Fin 10, Fin 10], [Fin 10, Fin 90.0625], [Fin 179, Fin 0]]]) =
     (True, Polygon
      [[[Fin 180, Fin 0], [Fin 10, Fin 10], [Fin 10, Fin 90], [Fin 180, Fin 0]]]) \<and>
   isValidGeometry (MultiPolygon
      [[[[Fin 1, Fin 2], [Fin 3, Fin 4], [Fin 5, Fin (- 90.0625)], [Fin 1, Fin 2]]]]) =
     (True, MultiPolygon
      [[[[Fin 1, Fin 2], [Fin 3, Fin 4], [Fin 5, Fin (- 90)], [Fin 1, Fin 2]]]])"
proof -
  let ?p = "Polygon
      [[[Fin 180.0625, Fin 0], [Fin 10, Fin 10], [Fin 10, Fin 90.0625], [Fin 179, Fin 0]]]"
  let ?m = "MultiPolygon
      [[[[Fin 1, Fin 2], [Fin 3, Fin 4], [Fin 5, Fin (- 90.0625)], [Fin 1, Fin 2]]]]"
  have hp: "every_ring_passes ?p \<and>
     (case ?p of
        Polygon coordinates \<Rightarrow> coordinates \<noteq> []
      | MultiPolygon coordinates \<Rightarrow> coordinates \<noteq> [] \<and> [] \<notin> set coordinates
      | OtherGeometry \<Rightarrow> False)"
    by (simp add: ring_passes_def)
  have hm: "every_ring_passes ?m \<and>
     (case ?m of
        Polygon coordinates \<Rightarrow> coordinates \<noteq> []
      | MultiPolygon coordinates \<Rightarrow> coordinates \<noteq> [] \<and> [] \<notin> set coordinates
      | OtherGeometry \<Rightarrow> False)"
    by (simp add: ring_passes_def)
  from isValidGeometry_mutates [of ?p] hp
  have "isValidGeometry ?p = (True, Polygon
      [[[Fin 180, Fin 0], [Fin 10, Fin 10], [Fin 10, Fin 90], [Fin 180, Fin 0]]])"
    by (simp add: expected_ring_def clamped_position_def differs_examples Let_def
        del: isValidGeometry.simps)
  moreover from isValidGeometry_mutates [of ?m] hm
  have "isValidGeometry ?m = (True, MultiPolygon
      [[[[Fin 1, Fin 2], [Fin 3, Fin 4], [Fin 5, Fin (- 90)], [Fin 1, Fin 2]]]])"
    by (simp add: expected_ring_def clamped_position_def differs_examples Let_def
        del: isValidGeometry.simps)
  ultimately show ?thesis by (simp del: isValidGeometry.simps)
qed

subsection \<open>Centroid\<close>












text \<open>
  Where the loop rounds, the result can be far from the centroid. On the triangle with legs
  of a hundred-thousandth of a degree at \<open>(179, 89)\<close> the exact shoelace sum is above
  \<open>1e-10\<close>, the accumulated one is below it, and the function returns the fallback value,
  about \<open>(238.67, 118.67)\<close>.
\<close>

lemma centroid_rounding_example:
  "1 / 10 ^ 10 \<le> \<bar>2 * signed_area
      [(179, 89), (round_double 178.99999, 89), (179, round_double 89.00001)]\<bar> \<and>
   getPolygonCentroid
      [[(179, 89), (round_double 178.99999, 89), (179, round_double 89.00001), (179, 89)]] =
     (Fin (8397336687919997 / 2 ^ 45), Fin (8350424543645275 / 2 ^ 46))"
  by (simp add: signed_area_def next_vertex_def cross_def getPolygonCentroid_def
      centroidStep_def Let_def number_1e_10_value double_eval)

text \<open>
  Claim C8 at a degenerate ring on the 180th meridian, which passes \<^verbatim>\<open>isValidGeometry\<close>.
  The shoelace sum is 0, so the fallback runs: it adds up all four positions of the ring,
  the repeated first one included, divides by three, and returns without clamping. The
  result has longitude 240 and the double nearest to 70/3 as latitude; the mean of the
  four positions is \<open>(180, 17.5)\<close> and the mean of the three vertices is \<open>(180, 20)\<close>.
\<close>

theorem centroid_fallback_at_meridian:
  "getPolygonCentroid [[(180, 10), (180, 20), (180, 30), (180, 10)]] =
     (Fin 240, Fin (round_double (70 / 3))) \<and>
   \<bar>round_double (70 / 3) - 70 / 3\<bar> < 1 / 10 ^ 14 \<and>
   mean_point [(180, 10), (180, 20), (180, 30), (180, 10)] = (180, 35 / 2) \<and>
   mean_point (butlast [(180, 10), (180, 20), (180, 30), (180, 10)]) = (180, 20)"
  by (simp add: getPolygonCentroid_def centroidStep_def Let_def mean_point_def
      number_1e_10_value double_eval)

end
